theory Spec2Isabelle
  imports Complex_Main "HOL-Library.AList" "HOL-Library.Char_ord" "HOL-Library.List_Lexorder"
begin

section \<open>Python string primitives\<close>

text \<open>
  Python \<open>str\<close> values are modelled as \<open>string\<close>, read as ASCII text.
  \<open>datetime\<close> values are integers (microseconds since the epoch).
\<close>

type_synonym datetime = int

definition digit_char :: "nat \<Rightarrow> char" where
  "digit_char d = char_of (48 + d)"

fun str_of_nat :: "nat \<Rightarrow> string" where
  "str_of_nat n = (if n < 10 then [digit_char n] else str_of_nat (n div 10) @ [digit_char (n mod 10)])"

declare str_of_nat.simps [simp del]

text \<open>The format specification \<open>{n:0wd}\<close> for a non-negative \<open>n\<close>.\<close>

definition format_0d :: "nat \<Rightarrow> nat \<Rightarrow> string" where
  "format_0d w n = (let s = str_of_nat n in replicate (w - length s) CHR ''0'' @ s)"

definition ord :: "char \<Rightarrow> nat" where
  "ord c = of_char c"

definition upper_char :: "char \<Rightarrow> char" where
  "upper_char c = (if 97 \<le> ord c \<and> ord c \<le> 122 then char_of (ord c - 32) else c)"

definition lower_char :: "char \<Rightarrow> char" where
  "lower_char c = (if 65 \<le> ord c \<and> ord c \<le> 90 then char_of (ord c + 32) else c)"

definition upper :: "string \<Rightarrow> string" where
  "upper s = map upper_char s"

definition lower :: "string \<Rightarrow> string" where
  "lower s = map lower_char s"

section \<open>Python exceptions and string tests\<close>

text \<open>The exceptions the modelled code can raise; a raising call returns \<open>Inl\<close>.\<close>

datatype py_error = RuntimeError | ValueError | IndexError

text \<open>\<open>s.startswith(p)\<close> and \<open>sub in s\<close>.\<close>

definition startswith :: "string \<Rightarrow> string \<Rightarrow> bool" where
  "startswith p s = (take (length p) s = p)"

fun contains :: "string \<Rightarrow> string \<Rightarrow> bool" where
  "contains sub [] = (sub = [])"
| "contains sub (c # cs) = (startswith sub (c # cs) \<or> contains sub cs)"

section \<open>Python library functions\<close>

text \<open>
  The functions of the standard library that the modelled code calls, after CPython 3.11
  (\<open>str\<close> methods, \<open>urllib.parse\<close>, \<open>html.unescape\<close>, \<open>pathlib\<close>). Two facts of the
  library stay parameters, passed as \<open>L\<close>: the table \<open>html.entities.html5\<close>, and whether
  a host in square brackets passes \<open>_check_bracketed_host\<close>.
\<close>

record pylib =
  html5 :: "string \<Rightarrow> string option"
  bracketed_host_ok :: "string \<Rightarrow> bool"

subsection \<open>Characters and \<open>str\<close> methods\<close>

definition isspace :: "char \<Rightarrow> bool" where
  "isspace c = (ord c \<in> {9, 10, 11, 12, 13, 28, 29, 30, 31, 32})"

definition isdigit :: "char \<Rightarrow> bool" where
  "isdigit c = (48 \<le> ord c \<and> ord c \<le> 57)"

definition isalpha :: "char \<Rightarrow> bool" where
  "isalpha c = ((65 \<le> ord c \<and> ord c \<le> 90) \<or> (97 \<le> ord c \<and> ord c \<le> 122))"

definition ishex :: "char \<Rightarrow> bool" where
  "ishex c = (isdigit c \<or> (65 \<le> ord c \<and> ord c \<le> 70) \<or> (97 \<le> ord c \<and> ord c \<le> 102))"

definition lstrip :: "(char \<Rightarrow> bool) \<Rightarrow> string \<Rightarrow> string" where
  "lstrip P s = dropWhile P s"

definition rstrip :: "(char \<Rightarrow> bool) \<Rightarrow> string \<Rightarrow> string" where
  "rstrip P s = rev (dropWhile P (rev s))"

definition strip :: "(char \<Rightarrow> bool) \<Rightarrow> string \<Rightarrow> string" where
  "strip P s = rstrip P (lstrip P s)"

definition endswith :: "string \<Rightarrow> string \<Rightarrow> bool" where
  "endswith p s = startswith (rev p) (rev s)"

text \<open>\<open>s.split(c)\<close> for a one-character separator: never empty.\<close>

fun split_on :: "char \<Rightarrow> string \<Rightarrow> string list" where
  "split_on c [] = [[]]"
| "split_on c (x # xs) =
     (let parts = split_on c xs
      in if x = c then [] # parts else (x # hd parts) # tl parts)"

text \<open>\<open>s.split()\<close>: the runs between whitespace; \<open>cur\<close> is the run being read.\<close>

fun split_runs :: "string \<Rightarrow> string \<Rightarrow> string list" where
  "split_runs cur [] = (if cur = [] then [] else [cur])"
| "split_runs cur (c # cs) =
     (if isspace c then (if cur = [] then split_runs [] cs else cur # split_runs [] cs)
      else split_runs (cur @ [c]) cs)"

definition split_whitespace :: "string \<Rightarrow> string list" where
  "split_whitespace s = split_runs [] s"

text \<open>\<open>sep.join(parts)\<close>.\<close>

fun join :: "string \<Rightarrow> string list \<Rightarrow> string" where
  "join sep [] = []"
| "join sep [p] = p"
| "join sep (p # q # ps) = p @ sep @ join sep (q # ps)"

text \<open>\<open>s.replace(old, new)\<close> for a non-empty \<open>old\<close>; \<open>k\<close> characters of a replaced match are still to skip.\<close>

fun replace_from :: "nat \<Rightarrow> string \<Rightarrow> string \<Rightarrow> string \<Rightarrow> string" where
  "replace_from k old new [] = []"
| "replace_from (Suc k) old new (c # cs) = replace_from k old new cs"
| "replace_from 0 old new (c # cs) =
     (if startswith old (c # cs) then new @ replace_from (length old - 1) old new cs
      else c # replace_from 0 old new cs)"

definition replace :: "string \<Rightarrow> string \<Rightarrow> string \<Rightarrow> string" where
  "replace old new s = replace_from 0 old new s"

text \<open>The text before the first occurrence of a character, and the text after it.\<close>

definition before :: "char \<Rightarrow> string \<Rightarrow> string" where
  "before c s = takeWhile (\<lambda>x. x \<noteq> c) s"

definition after :: "char \<Rightarrow> string \<Rightarrow> string" where
  "after c s = drop 1 (dropWhile (\<lambda>x. x \<noteq> c) s)"

text \<open>\<open>s.rfind(c)\<close> where \<open>c\<close> occurs in \<open>s\<close>.\<close>

definition rfind :: "char \<Rightarrow> string \<Rightarrow> nat" where
  "rfind c s = length s - 1 - length (takeWhile (\<lambda>x. x \<noteq> c) (rev s))"

subsection \<open>\<open>urllib.parse\<close>\<close>

definition uses_relative :: "string list" where
  "uses_relative = ['''', ''ftp'', ''http'', ''gopher'', ''nntp'', ''imap'', ''wais'', ''file'',
     ''https'', ''shttp'', ''mms'', ''prospero'', ''rtsp'', ''rtsps'', ''rtspu'', ''sftp'', ''svn'',
     ''svn+ssh'', ''ws'', ''wss'']"

definition uses_netloc :: "string list" where
  "uses_netloc = ['''', ''ftp'', ''http'', ''gopher'', ''nntp'', ''telnet'', ''imap'', ''wais'',
     ''file'', ''mms'', ''https'', ''shttp'', ''snews'', ''prospero'', ''rtsp'', ''rtsps'', ''rtspu'',
     ''rsync'', ''svn'', ''svn+ssh'', ''sftp'', ''nfs'', ''git'', ''git+ssh'', ''ws'', ''wss'']"

definition uses_params :: "string list" where
  "uses_params = ['''', ''ftp'', ''hdl'', ''prospero'', ''http'', ''imap'', ''https'', ''shttp'',
     ''rtsp'', ''rtsps'', ''rtspu'', ''sip'', ''sips'', ''mms'', ''sftp'', ''tel'']"

definition scheme_char :: "char \<Rightarrow> bool" where
  "scheme_char c = (isalpha c \<or> isdigit c \<or> c = CHR ''+'' \<or> c = CHR ''-'' \<or> c = CHR ''.'')"

definition c0_control_or_space :: "char \<Rightarrow> bool" where
  "c0_control_or_space c = (ord c \<le> 32)"

definition unsafe_url_byte :: "char \<Rightarrow> bool" where
  "unsafe_url_byte c = (ord c = 9 \<or> ord c = 13 \<or> ord c = 10)"

record ParseResult =
  scheme :: string
  netloc :: string
  path :: string
  params :: string
  query :: string
  fragment :: string

text \<open>The scheme of a URL and the text after its colon; \<open>dflt\<close> when the URL names none.\<close>

definition split_scheme :: "string \<Rightarrow> string \<Rightarrow> string \<times> string" where
  "split_scheme dflt url =
     (let pre = before CHR '':'' url
      in if CHR '':'' \<in> set url \<and> pre \<noteq> [] \<and> isalpha (hd url) \<and> list_all scheme_char pre
         then (lower pre, after CHR '':'' url)
         else (dflt, url))"

definition netloc_delim :: "char \<Rightarrow> bool" where
  "netloc_delim c = (c = CHR ''/'' \<or> c = CHR ''?'' \<or> c = CHR ''#'')"

text \<open>The checks \<open>urlsplit\<close> makes on a netloc with square brackets.\<close>

definition netloc_brackets_ok :: "pylib \<Rightarrow> string \<Rightarrow> bool" where
  "netloc_brackets_ok L nl =
     (let opens = CHR ''['' \<in> set nl; closes = CHR '']'' \<in> set nl
      in if opens \<and> closes then bracketed_host_ok L (before CHR '']'' (after CHR ''['' nl))
         else \<not> opens \<and> \<not> closes)"

text \<open>
  \<open>urlsplit(url, scheme)\<close>, the result with empty \<open>params\<close>. \<open>_checknetloc\<close> only acts on
  a netloc outside ASCII.
\<close>

definition urlsplit :: "pylib \<Rightarrow> string \<Rightarrow> string \<Rightarrow> py_error + ParseResult" where
  "urlsplit L url0 scheme0 =
     (let url1 = filter (\<lambda>c. \<not> unsafe_url_byte c) (lstrip c0_control_or_space url0);
          dflt = filter (\<lambda>c. \<not> unsafe_url_byte c) (strip c0_control_or_space scheme0);
          (sch, url2) = split_scheme dflt url1;
          has_netloc = (take 2 url2 = ''//'');
          nl = (if has_netloc then takeWhile (\<lambda>c. \<not> netloc_delim c) (drop 2 url2) else []);
          url3 = (if has_netloc then dropWhile (\<lambda>c. \<not> netloc_delim c) (drop 2 url2) else url2)
      in if has_netloc \<and> \<not> netloc_brackets_ok L nl then Inl ValueError
         else
           (let frag = (if CHR ''#'' \<in> set url3 then after CHR ''#'' url3 else []);
                url4 = before CHR ''#'' url3;
                qry = (if CHR ''?'' \<in> set url4 then after CHR ''?'' url4 else []);
                url5 = before CHR ''?'' url4
            in Inr \<lparr>scheme = sch, netloc = nl, path = url5, params = [], query = qry,
                     fragment = frag\<rparr>))"

definition splitparams :: "string \<Rightarrow> string \<times> string" where
  "splitparams url =
     (if CHR ''/'' \<in> set url then
        (let k = rfind CHR ''/'' url; tail = drop k url
         in if CHR '';'' \<notin> set tail then (url, [])
            else (let i = k + length (before CHR '';'' tail) in (take i url, drop (i + 1) url)))
      else if CHR '';'' \<in> set url then (before CHR '';'' url, after CHR '';'' url)
      else (butlast url, url))"

definition urlparse :: "pylib \<Rightarrow> string \<Rightarrow> string \<Rightarrow> py_error + ParseResult" where
  "urlparse L url scheme0 =
     (case urlsplit L url scheme0 of
        Inl e \<Rightarrow> Inl e
      | Inr r \<Rightarrow>
          (if scheme r \<in> set uses_params \<and> CHR '';'' \<in> set (path r)
           then (let (u, p) = splitparams (path r) in Inr (r\<lparr>path := u, params := p\<rparr>))
           else Inr r))"

definition urlunsplit :: "string \<Rightarrow> string \<Rightarrow> string \<Rightarrow> string \<Rightarrow> string \<Rightarrow> string" where
  "urlunsplit sch nl url qry frag =
     (let url1 = (if nl \<noteq> [] \<or> (sch \<noteq> [] \<and> sch \<in> set uses_netloc) \<or> take 2 url = ''//''
                  then ''//'' @ nl @ (if url \<noteq> [] \<and> take 1 url \<noteq> ''/'' then ''/'' @ url else url)
                  else url);
          url2 = (if sch \<noteq> [] then sch @ '':'' @ url1 else url1);
          url3 = (if qry \<noteq> [] then url2 @ ''?'' @ qry else url2)
      in if frag \<noteq> [] then url3 @ ''#'' @ frag else url3)"

definition urlunparse :: "ParseResult \<Rightarrow> string" where
  "urlunparse r =
     urlunsplit (scheme r) (netloc r)
       (if params r \<noteq> [] then path r @ '';'' @ params r else path r) (query r) (fragment r)"

definition geturl :: "ParseResult \<Rightarrow> string" where
  "geturl r = urlunparse r"

text \<open>The loop of \<open>urljoin\<close> over the segments; \<open>pop\<close> on an empty list is caught.\<close>

fun resolve_segments :: "string list \<Rightarrow> string list \<Rightarrow> string list" where
  "resolve_segments resolved [] = resolved"
| "resolve_segments resolved (seg # segs) =
     (if seg = ''..'' then resolve_segments (butlast resolved) segs
      else if seg = ''.'' then resolve_segments resolved segs
      else resolve_segments (resolved @ [seg]) segs)"

definition urljoin :: "pylib \<Rightarrow> string \<Rightarrow> string \<Rightarrow> py_error + string" where
  "urljoin L base url =
     (if base = [] then Inr url
      else if url = [] then Inr base
      else case urlparse L base [] of
        Inl e \<Rightarrow> Inl e
      | Inr b \<Rightarrow>
         (case urlparse L url (scheme b) of
            Inl e \<Rightarrow> Inl e
          | Inr r \<Rightarrow>
              if scheme r \<noteq> scheme b \<or> scheme r \<notin> set uses_relative then Inr url
              else if scheme r \<in> set uses_netloc \<and> netloc r \<noteq> [] then Inr (urlunparse r)
              else
                (let r1 = (if scheme r \<in> set uses_netloc then r\<lparr>netloc := netloc b\<rparr> else r)
                 in if path r1 = [] \<and> params r1 = [] then
                      Inr (urlunparse (r1\<lparr>path := path b, params := params b,
                             query := (if query r1 = [] then query b else query r1)\<rparr>))
                    else
                      (let base_parts0 = split_on CHR ''/'' (path b);
                           base_parts = (if last base_parts0 \<noteq> [] then butlast base_parts0 else base_parts0);
                           segments0 = (if take 1 (path r1) = ''/'' then split_on CHR ''/'' (path r1)
                                        else base_parts @ split_on CHR ''/'' (path r1));
                           segments = (if take 1 (path r1) = ''/'' \<or> length segments0 < 2 then segments0
                                       else hd segments0 # filter (\<lambda>s. s \<noteq> []) (butlast (tl segments0))
                                              @ [last segments0]);
                           resolved0 = resolve_segments [] segments;
                           resolved = (if last segments = ''.'' \<or> last segments = ''..''
                                       then resolved0 @ [[]] else resolved0);
                           joined = join ''/'' resolved
                       in Inr (urlunparse (r1\<lparr>path := (if joined = [] then ''/'' else joined)\<rparr>))))))"

subsection \<open>\<open>pathlib\<close>\<close>



subsection \<open>\<open>html.unescape\<close>\<close>

text \<open>
  Text outside ASCII, which a character reference can produce, is written in UTF-8.
\<close>

definition py_chr :: "nat \<Rightarrow> string" where
  "py_chr n =
     (if n < 128 then [char_of n]
      else if n < 2048 then [char_of (192 + n div 64), char_of (128 + n mod 64)]
      else if n < 65536 then
        [char_of (224 + n div 4096), char_of (128 + (n div 64) mod 64), char_of (128 + n mod 64)]
      else [char_of (240 + n div 262144), char_of (128 + (n div 4096) mod 64),
            char_of (128 + (n div 64) mod 64), char_of (128 + n mod 64)])"

definition invalid_charrefs :: "(nat \<times> nat) list" where
  "invalid_charrefs =
     [(0, 65533), (13, 13), (128, 8364), (129, 129), (130, 8218), (131, 402), (132, 8222),
      (133, 8230), (134, 8224), (135, 8225), (136, 710), (137, 8240), (138, 352), (139, 8249),
      (140, 338), (141, 141), (142, 381), (143, 143), (144, 144), (145, 8216), (146, 8217),
      (147, 8220), (148, 8221), (149, 8226), (150, 8211), (151, 8212), (152, 732), (153, 8482),
      (154, 353), (155, 8250), (156, 339), (157, 157), (158, 382), (159, 376)]"

definition invalid_codepoint :: "nat \<Rightarrow> bool" where
  "invalid_codepoint n =
     ((1 \<le> n \<and> n \<le> 8) \<or> (14 \<le> n \<and> n \<le> 31) \<or> (127 \<le> n \<and> n \<le> 159) \<or>
      (64976 \<le> n \<and> n \<le> 65007) \<or> n = 11 \<or>
      (n \<le> 1114111 \<and> (n mod 65536 = 65534 \<or> n mod 65536 = 65535)))"

definition hex_value :: "char \<Rightarrow> nat" where
  "hex_value c =
     (if isdigit c then ord c - 48 else if ord c \<ge> 97 then ord c - 87 else ord c - 55)"

definition int_of_digits :: "nat \<Rightarrow> string \<Rightarrow> nat" where
  "int_of_digits b s = foldl (\<lambda>n c. n * b + hex_value c) 0 s"

definition name_char :: "char \<Rightarrow> bool" where
  "name_char c = (ord c \<noteq> 9 \<and> ord c \<noteq> 10 \<and> ord c \<noteq> 12 \<and> c \<noteq> CHR '' '' \<and> c \<noteq> CHR ''<'' \<and>
                  c \<noteq> CHR ''&'' \<and> c \<noteq> CHR ''#'' \<and> c \<noteq> CHR '';'')"

text \<open>
  What \<open>_charref\<close> captures after an ampersand: group 1 of the match at the head of
  \<open>s\<close>, if there is one.
\<close>

definition with_semicolon :: "string \<Rightarrow> string \<Rightarrow> string" where
  "with_semicolon body rest = (if take 1 rest = '';'' then body @ '';'' else body)"

definition charref_match :: "string \<Rightarrow> string option" where
  "charref_match s =
     (if take 1 s = ''#'' then
        (let ds = takeWhile isdigit (drop 1 s);
             hs = takeWhile ishex (drop 2 s)
         in if ds \<noteq> [] then Some (with_semicolon (''#'' @ ds) (drop (1 + length ds) s))
            else if (take 1 (drop 1 s) = ''x'' \<or> take 1 (drop 1 s) = ''X'') \<and> hs \<noteq> []
            then Some (with_semicolon (take 2 s @ hs) (drop (2 + length hs) s))
            else None)
      else
        (let name = takeWhile name_char (take 32 s)
         in if name \<noteq> [] then Some (with_semicolon name (drop (length name) s)) else None))"

text \<open>The loop of \<open>_replace_charref\<close> for the longest known prefix, \<open>x\<close> counting down to 2.\<close>

fun longest_name :: "(string \<Rightarrow> string option) \<Rightarrow> string \<Rightarrow> nat \<Rightarrow> string" where
  "longest_name tbl s 0 = ''&'' @ s"
| "longest_name tbl s (Suc x) =
     (if Suc x < 2 then ''&'' @ s
      else case tbl (take (Suc x) s) of
             Some v \<Rightarrow> v @ drop (Suc x) s
           | None \<Rightarrow> longest_name tbl s x)"

definition replace_charref :: "pylib \<Rightarrow> string \<Rightarrow> string" where
  "replace_charref L s =
     (if take 1 s = ''#'' then
        (let num = (if take 1 (drop 1 s) = ''x'' \<or> take 1 (drop 1 s) = ''X''
                    then int_of_digits 16 (rstrip (\<lambda>c. c = CHR '';'') (drop 2 s))
                    else int_of_digits 10 (rstrip (\<lambda>c. c = CHR '';'') (drop 1 s)))
         in case map_of invalid_charrefs num of
              Some cp \<Rightarrow> py_chr cp
            | None \<Rightarrow>
                if (55296 \<le> num \<and> num \<le> 57343) \<or> num > 1114111 then py_chr 65533
                else if invalid_codepoint num then []
                else py_chr num)
      else
        (case html5 L s of
           Some v \<Rightarrow> v
         | None \<Rightarrow> longest_name (html5 L) s (length s - 1)))"

text \<open>\<open>_charref.sub\<close>: \<open>k\<close> characters of a replaced reference are still to skip.\<close>

fun charref_sub :: "pylib \<Rightarrow> nat \<Rightarrow> string \<Rightarrow> string" where
  "charref_sub L k [] = []"
| "charref_sub L (Suc k) (c # cs) = charref_sub L k cs"
| "charref_sub L 0 (c # cs) =
     (if c = CHR ''&'' then
        (case charref_match cs of
           None \<Rightarrow> c # charref_sub L 0 cs
         | Some ref \<Rightarrow> replace_charref L ref @ charref_sub L (length ref) cs)
      else c # charref_sub L 0 cs)"

definition unescape :: "pylib \<Rightarrow> string \<Rightarrow> string" where
  "unescape L s = (if CHR ''&'' \<notin> set s then s else charref_sub L 0 s)"


section \<open>checklist.py: the ledger's data model\<close>

datatype JobStatus = PENDING | IN_PROGRESS | COMPLETED | FAILED | PAUSED

datatype JobType = FULL_CRAWL | INCREMENTAL | RETRY_FAILED | SINGLE_PRODUCT

datatype ErrorType = CRAWL_FAILED | PARSE_FAILED | DOWNLOAD_FAILED | TIMEOUT

record SessionProgress =
  products_discovered :: int
  products_crawled :: int
  products_skipped :: int
  images_downloaded :: int
  images_failed :: int
  current_page :: int
  last_product_url :: "string option"

record CurrentSession =
  cs_id :: string
  cs_started_at :: datetime
  cs_status :: JobStatus
  cs_agent :: "string option"
  progress :: SessionProgress

record JobConfig =
  headless :: bool
  delay_seconds :: real
  max_concurrent_downloads :: int
  skip_existing :: bool
  output_dir :: string
  metadata_file :: string

record JobExecution =
  ex_agent :: "string option"
  ex_started_at :: "datetime option"
  ex_completed_at :: "datetime option"
  duration_seconds :: "int option"

record JobResult =
  success :: bool
  jr_total_products :: int
  jr_total_images :: int
  new_products :: int
  new_images :: int
  skipped_products :: int
  failed_downloads :: int
  error_message :: "string option"

record CrawlJob =
  cj_id :: string
  cj_type :: JobType
  cj_status :: JobStatus
  priority :: string
  execution :: JobExecution
  config :: JobConfig
  cj_result :: "JobResult option"
  files_modified :: "string list"

record ProductCrawlInfo =
  first_seen :: datetime
  last_crawled :: datetime
  crawl_count :: int
  ci_job_id :: string

record ProductImageStatus =
  im_total :: int
  im_downloaded :: int
  im_failed :: int
  im_status :: JobStatus

record ProductPrice =
  current :: "string option"
  last_seen :: "datetime option"

record ProductEntry =
  pe_id :: string
  pe_name :: string
  pe_url :: string
  pe_status :: JobStatus
  crawl_info :: "ProductCrawlInfo option"
  images :: ProductImageStatus
  price :: ProductPrice
  category :: "string option"
  pe_errors :: "string list"

record ErrorEntry =
  ee_id :: string
  ee_timestamp :: datetime
  ee_job_id :: string
  ee_product_id :: "string option"
  ee_type :: ErrorType
  ee_url :: "string option"
  ee_message :: string
  retry_count :: int
  resolved :: bool

record JobStats =
  js_total :: int
  js_completed :: int
  js_failed :: int
  js_pending :: int

record DownloadStats =
  ds_successful :: int
  ds_failed :: int
  ds_skipped :: int

text \<open>\<open>by_category\<close> is a Python dict: an association list in insertion order.\<close>

record Stats =
  total_products :: int
  total_images :: int
  st_jobs :: JobStats
  downloads :: DownloadStats
  by_category :: "(string \<times> int) list"
  last_full_crawl :: "datetime option"
  last_incremental :: "datetime option"
  average_crawl_time_seconds :: "int option"

record MetadataSync =
  ms_file :: string
  last_sync :: "datetime option"
  products_in_metadata :: int
  images_in_metadata :: int
  sync_status :: string

record StoreParserChecklist =
  version :: string
  project :: string
  target_site :: string
  platform :: string
  created_at :: datetime
  updated_at :: datetime
  current_session :: "CurrentSession option"
  jobs :: "CrawlJob list"
  products :: "ProductEntry list"
  errors :: "ErrorEntry list"
  stats :: Stats
  metadata_sync :: MetadataSync

text \<open>The field defaults of the pydantic models.\<close>

definition SessionProgress_default :: SessionProgress where
  "SessionProgress_default =
     \<lparr>products_discovered = 0, products_crawled = 0, products_skipped = 0,
      images_downloaded = 0, images_failed = 0, current_page = 1, last_product_url = None\<rparr>"

definition JobConfig_default :: JobConfig where
  "JobConfig_default =
     \<lparr>headless = True, delay_seconds = 3 / 2, max_concurrent_downloads = 5,
      skip_existing = True, output_dir = ''data/images'', metadata_file = ''data/metadata.json''\<rparr>"

definition JobExecution_default :: JobExecution where
  "JobExecution_default =
     \<lparr>ex_agent = None, ex_started_at = None, ex_completed_at = None, duration_seconds = None\<rparr>"

definition Stats_default :: Stats where
  "Stats_default =
     \<lparr>total_products = 0, total_images = 0,
      st_jobs = \<lparr>js_total = 0, js_completed = 0, js_failed = 0, js_pending = 0\<rparr>,
      downloads = \<lparr>ds_successful = 0, ds_failed = 0, ds_skipped = 0\<rparr>,
      by_category = [], last_full_crawl = None, last_incremental = None,
      average_crawl_time_seconds = None\<rparr>"

definition MetadataSync_default :: MetadataSync where
  "MetadataSync_default =
     \<lparr>ms_file = ''data/metadata.json'', last_sync = None, products_in_metadata = 0,
      images_in_metadata = 0, sync_status = ''in_sync''\<rparr>"

text \<open>
  \<open>StoreParserChecklist()\<close>: both timestamps come from \<open>default_factory=datetime.now\<close>,
  read in field order.
\<close>

definition StoreParserChecklist_default :: "datetime \<Rightarrow> datetime \<Rightarrow> StoreParserChecklist" where
  "StoreParserChecklist_default t1 t2 =
     \<lparr>version = ''1.0'', project = ''ggp_store_parser'', target_site = ''https://ggstore.com'',
      platform = ''Shopify'', created_at = t1, updated_at = t2, current_session = None,
      jobs = [], products = [], errors = [], stats = Stats_default,
      metadata_sync = MetadataSync_default\<rparr>"

section \<open>checklist\_manager.py: the ledger's operations\<close>

text \<open>
  The manager's state: \<open>self.checklist\<close>, the document stored in the file at
  \<open>self.checklist_path\<close> (\<open>None\<close> while the file does not exist; the document is the
  dumped model, field for field), and the number of readings of \<open>datetime.now()\<close> made so
  far. The wall clock is a function \<open>clk\<close> from the reading's number to the time read.
\<close>

type_synonym clock = "nat \<Rightarrow> datetime"

record ChecklistManager =
  checklist :: StoreParserChecklist
  ledger_file :: "StoreParserChecklist option"
  ticks :: nat

definition now :: "clock \<Rightarrow> ChecklistManager \<Rightarrow> datetime \<times> ChecklistManager" where
  "now clk m = (clk (ticks m), m\<lparr>ticks := Suc (ticks m)\<rparr>)"

text \<open>\<open>StoreParserChecklist.save\<close> through \<open>ChecklistManager.save\<close>.\<close>

definition save :: "clock \<Rightarrow> ChecklistManager \<Rightarrow> ChecklistManager" where
  "save clk m =
     (let (t, m1) = now clk m;
          c = (checklist m1)\<lparr>updated_at := t\<rparr>
      in m1\<lparr>checklist := c, ledger_file := Some c\<rparr>)"

text \<open>
  A loop that returns the first element satisfying a test; the caller then mutates that
  object in place, which \<open>update_first\<close> does on the list.
\<close>

fun update_first :: "('a \<Rightarrow> bool) \<Rightarrow> ('a \<Rightarrow> 'a) \<Rightarrow> 'a list \<Rightarrow> 'a list" where
  "update_first P f [] = []"
| "update_first P f (x # xs) = (if P x then f x # xs else x # update_first P f xs)"

definition find_job :: "string \<Rightarrow> StoreParserChecklist \<Rightarrow> CrawlJob option" where
  "find_job job_id c = find (\<lambda>j. cj_id j = job_id) (jobs c)"

definition find_product :: "string \<Rightarrow> StoreParserChecklist \<Rightarrow> ProductEntry option" where
  "find_product product_id c = find (\<lambda>p. pe_id p = product_id) (products c)"

subsection \<open>Session management\<close>

definition start_session :: "clock \<Rightarrow> string \<Rightarrow> string \<Rightarrow> ChecklistManager \<Rightarrow> CurrentSession \<times> ChecklistManager" where
  "start_session clk uuid_hex agent m =
     (let (t, m1) = now clk m;
          session = \<lparr>cs_id = ''SESSION-'' @ upper (take 8 uuid_hex), cs_started_at = t,
                     cs_status = IN_PROGRESS, cs_agent = Some agent,
                     progress = SessionProgress_default\<rparr>;
          m2 = m1\<lparr>checklist := (checklist m1)\<lparr>current_session := Some session\<rparr>\<rparr>
      in (session, save clk m2))"

definition set_opt :: "'a option \<Rightarrow> ('a \<Rightarrow> 'r \<Rightarrow> 'r) \<Rightarrow> 'r \<Rightarrow> 'r" where
  "set_opt v upd r = (case v of None \<Rightarrow> r | Some x \<Rightarrow> upd x r)"

definition update_session_progress ::
  "clock \<Rightarrow> int option \<Rightarrow> int option \<Rightarrow> int option \<Rightarrow> int option \<Rightarrow> int option \<Rightarrow> int option \<Rightarrow>
   string option \<Rightarrow> ChecklistManager \<Rightarrow> ChecklistManager" where
  "update_session_progress clk discovered crawled skipped downloaded failed page last_url m =
     (case current_session (checklist m) of
        None \<Rightarrow> m
      | Some s \<Rightarrow>
          (let p0 = progress s;
               p1 = set_opt discovered (\<lambda>v p. p\<lparr>products_discovered := v\<rparr>) p0;
               p2 = set_opt crawled (\<lambda>v p. p\<lparr>products_crawled := v\<rparr>) p1;
               p3 = set_opt skipped (\<lambda>v p. p\<lparr>products_skipped := v\<rparr>) p2;
               p4 = set_opt downloaded (\<lambda>v p. p\<lparr>images_downloaded := v\<rparr>) p3;
               p5 = set_opt failed (\<lambda>v p. p\<lparr>images_failed := v\<rparr>) p4;
               p6 = set_opt page (\<lambda>v p. p\<lparr>current_page := v\<rparr>) p5;
               p7 = set_opt last_url (\<lambda>v p. p\<lparr>last_product_url := Some v\<rparr>) p6
           in save clk (m\<lparr>checklist := (checklist m)\<lparr>current_session := Some (s\<lparr>progress := p7\<rparr>)\<rparr>\<rparr>)))"

definition end_session :: "clock \<Rightarrow> JobStatus \<Rightarrow> ChecklistManager \<Rightarrow> ChecklistManager" where
  "end_session clk status m =
     (let c = checklist m;
          c1 = (case current_session c of
                  None \<Rightarrow> c
                | Some s \<Rightarrow> c\<lparr>current_session := Some (s\<lparr>cs_status := status\<rparr>)\<rparr>)
      in save clk (m\<lparr>checklist := c1\<rparr>))"

subsection \<open>Job management\<close>

definition create_job ::
  "clock \<Rightarrow> JobType \<Rightarrow> JobConfig option \<Rightarrow> string \<Rightarrow> ChecklistManager \<Rightarrow> CrawlJob \<times> ChecklistManager" where
  "create_job clk job_type cfg prio m =
     (let c = checklist m;
          job_id = ''JOB-'' @ format_0d 3 (length (jobs c) + 1);
          job = \<lparr>cj_id = job_id, cj_type = job_type, cj_status = PENDING, priority = prio,
                 execution = JobExecution_default,
                 config = (case cfg of None \<Rightarrow> JobConfig_default | Some k \<Rightarrow> k),
                 cj_result = None, files_modified = []\<rparr>;
          js = st_jobs (stats c);
          js1 = js\<lparr>js_total := js_total js + 1\<rparr>;
          js2 = js1\<lparr>js_pending := js_pending js1 + 1\<rparr>;
          c1 = c\<lparr>jobs := jobs c @ [job], stats := (stats c)\<lparr>st_jobs := js2\<rparr>\<rparr>
      in (job, save clk (m\<lparr>checklist := c1\<rparr>)))"

definition start_job ::
  "clock \<Rightarrow> string \<Rightarrow> string \<Rightarrow> ChecklistManager \<Rightarrow> CrawlJob option \<times> ChecklistManager" where
  "start_job clk job_id agent m =
     (case find_job job_id (checklist m) of
        None \<Rightarrow> (None, m)
      | Some job \<Rightarrow>
          (let (t, m1) = now clk m;
               job1 = job\<lparr>cj_status := IN_PROGRESS,
                          execution := (execution job)\<lparr>ex_agent := Some agent, ex_started_at := Some t\<rparr>\<rparr>;
               c = checklist m1;
               js = st_jobs (stats c);
               js1 = (if js_pending js > 0 then js\<lparr>js_pending := js_pending js - 1\<rparr> else js);
               c1 = c\<lparr>jobs := update_first (\<lambda>j. cj_id j = job_id) (\<lambda>_. job1) (jobs c),
                      stats := (stats c)\<lparr>st_jobs := js1\<rparr>\<rparr>
           in (Some job1, save clk (m1\<lparr>checklist := c1\<rparr>))))"

text \<open>\<open>timedelta.seconds\<close> of the difference of two times: the seconds within the day.\<close>

definition timedelta_seconds :: "datetime \<Rightarrow> datetime \<Rightarrow> int" where
  "timedelta_seconds t1 t0 = ((t1 - t0) mod 86400000000) div 1000000"

definition complete_job ::
  "clock \<Rightarrow> string \<Rightarrow> JobResult \<Rightarrow> ChecklistManager \<Rightarrow> CrawlJob option \<times> ChecklistManager" where
  "complete_job clk job_id res m =
     (case find_job job_id (checklist m) of
        None \<Rightarrow> (None, m)
      | Some job \<Rightarrow>
          (let (t, m1) = now clk m;
               ex1 = (execution job)\<lparr>ex_completed_at := Some t\<rparr>;
               ex2 = (case ex_started_at ex1 of
                        None \<Rightarrow> ex1
                      | Some t0 \<Rightarrow> ex1\<lparr>duration_seconds := Some (timedelta_seconds t t0)\<rparr>);
               job1 = job\<lparr>cj_status := (if success res then COMPLETED else FAILED),
                          execution := ex2, cj_result := Some res\<rparr>;
               st = stats (checklist m1);
               js = st_jobs st;
               (st1, m2) =
                 (if success res then
                    (let st' = st\<lparr>st_jobs := js\<lparr>js_completed := js_completed js + 1\<rparr>\<rparr>
                     in if cj_type job = FULL_CRAWL then
                          (let (t2, m') = now clk m1 in (st'\<lparr>last_full_crawl := Some t2\<rparr>, m'))
                        else if cj_type job = INCREMENTAL then
                          (let (t2, m') = now clk m1 in (st'\<lparr>last_incremental := Some t2\<rparr>, m'))
                        else (st', m1))
                  else (st\<lparr>st_jobs := js\<lparr>js_failed := js_failed js + 1\<rparr>\<rparr>, m1));
               c = checklist m2;
               c1 = c\<lparr>jobs := update_first (\<lambda>j. cj_id j = job_id) (\<lambda>_. job1) (jobs c), stats := st1\<rparr>
           in (Some job1, save clk (m2\<lparr>checklist := c1\<rparr>))))"

subsection \<open>Product tracking\<close>

text \<open>Python truthiness of an optional string: neither \<open>None\<close> nor empty.\<close>

definition truthy :: "string option \<Rightarrow> bool" where
  "truthy s = (case s of None \<Rightarrow> False | Some v \<Rightarrow> v \<noteq> [])"

definition dict_incr :: "string \<Rightarrow> (string \<times> int) list \<Rightarrow> (string \<times> int) list" where
  "dict_incr k d =
     (let d1 = (if map_of d k = None then AList.update k 0 d else d)
      in AList.update k (the (map_of d1 k) + 1) d1)"

definition update_existing ::
  "datetime \<Rightarrow> string \<Rightarrow> JobStatus \<Rightarrow> int \<Rightarrow> int \<Rightarrow> int \<Rightarrow> string option \<Rightarrow> string option \<Rightarrow>
   ProductEntry \<Rightarrow> ProductEntry" where
  "update_existing t job_id status image_count downloaded_count failed_count pr cat existing =
     (let e1 = existing\<lparr>pe_status := status\<rparr>;
          e2 = (case crawl_info e1 of
                  None \<Rightarrow> e1
                | Some ci \<Rightarrow>
                    e1\<lparr>crawl_info := Some (ci\<lparr>last_crawled := t, crawl_count := crawl_count ci + 1,
                                               ci_job_id := job_id\<rparr>)\<rparr>);
          e3 = e2\<lparr>images := (images e2)\<lparr>im_total := image_count, im_downloaded := downloaded_count,
                                         im_failed := failed_count, im_status := status\<rparr>\<rparr>;
          e4 = (if truthy pr then e3\<lparr>price := (price e3)\<lparr>current := pr, last_seen := Some t\<rparr>\<rparr> else e3);
          e5 = (if truthy cat then e4\<lparr>category := cat\<rparr> else e4)
      in e5)"

definition new_entry ::
  "datetime \<Rightarrow> string \<Rightarrow> string \<Rightarrow> string \<Rightarrow> string \<Rightarrow> JobStatus \<Rightarrow> int \<Rightarrow> int \<Rightarrow> int \<Rightarrow>
   string option \<Rightarrow> string option \<Rightarrow> ProductEntry" where
  "new_entry t product_id name url job_id status image_count downloaded_count failed_count pr cat =
     \<lparr>pe_id = product_id, pe_name = name, pe_url = url, pe_status = status,
      crawl_info = Some \<lparr>first_seen = t, last_crawled = t, crawl_count = 1, ci_job_id = job_id\<rparr>,
      images = \<lparr>im_total = image_count, im_downloaded = downloaded_count,
                im_failed = failed_count, im_status = status\<rparr>,
      price = \<lparr>current = pr, last_seen = (if truthy pr then Some t else None)\<rparr>,
      category = cat, pe_errors = []\<rparr>"

definition add_or_update_product ::
  "clock \<Rightarrow> string \<Rightarrow> string \<Rightarrow> string \<Rightarrow> string \<Rightarrow> JobStatus \<Rightarrow> int \<Rightarrow> int \<Rightarrow> int \<Rightarrow>
   string option \<Rightarrow> string option \<Rightarrow> ChecklistManager \<Rightarrow> ProductEntry \<times> ChecklistManager" where
  "add_or_update_product clk product_id name url job_id status image_count downloaded_count
       failed_count pr cat m =
     (let existing = find_product product_id (checklist m);
          (t, m1) = now clk m;
          c = checklist m1
      in case existing of
           Some e \<Rightarrow>
             (let product = update_existing t job_id status image_count downloaded_count failed_count pr cat e;
                  c1 = c\<lparr>products := update_first (\<lambda>p. pe_id p = product_id) (\<lambda>_. product) (products c)\<rparr>
              in (product, save clk (m1\<lparr>checklist := c1\<rparr>)))
         | None \<Rightarrow>
             (let product = new_entry t product_id name url job_id status image_count downloaded_count
                              failed_count pr cat;
                  ps = products c @ [product];
                  st1 = (stats c)\<lparr>total_products := int (length ps)\<rparr>;
                  st2 = (if truthy cat then st1\<lparr>by_category := dict_incr (the cat) (by_category st1)\<rparr> else st1);
                  c1 = c\<lparr>products := ps, stats := st2\<rparr>
              in (product, save clk (m1\<lparr>checklist := c1\<rparr>))))"

subsection \<open>Error tracking\<close>

definition log_error ::
  "clock \<Rightarrow> string \<Rightarrow> ErrorType \<Rightarrow> string \<Rightarrow> string option \<Rightarrow> string option \<Rightarrow>
   ChecklistManager \<Rightarrow> ErrorEntry \<times> ChecklistManager" where
  "log_error clk job_id error_type message product_id url m =
     (let c0 = checklist m;
          eid = ''ERR-'' @ format_0d 3 (length (errors c0) + 1);
          (t, m1) = now clk m;
          err = \<lparr>ee_id = eid, ee_timestamp = t, ee_job_id = job_id, ee_product_id = product_id,
                 ee_type = error_type, ee_url = url, ee_message = message, retry_count = 0,
                 resolved = False\<rparr>;
          c = checklist m1;
          c1 = c\<lparr>errors := errors c @ [err]\<rparr>
      in (err, save clk (m1\<lparr>checklist := c1\<rparr>)))"

definition resolve_error :: "clock \<Rightarrow> string \<Rightarrow> ChecklistManager \<Rightarrow> bool \<times> ChecklistManager" where
  "resolve_error clk error_id m =
     (let c = checklist m in
      case find (\<lambda>e. ee_id e = error_id) (errors c) of
        None \<Rightarrow> (False, m)
      | Some _ \<Rightarrow>
          (let c1 = c\<lparr>errors := update_first (\<lambda>e. ee_id e = error_id) (\<lambda>e. e\<lparr>resolved := True\<rparr>) (errors c)\<rparr>
           in (True, save clk (m\<lparr>checklist := c1\<rparr>))))"

subsection \<open>models.py and the metadata sync\<close>

record ProductImage =
  filename :: string
  original_url :: string
  local_path :: string
  downloaded_at :: datetime

record Product =
  p_id :: string
  p_name :: string
  p_url :: string
  p_price :: "string option"
  p_category :: "string option"
  p_images :: "ProductImage list"
  p_crawled_at :: datetime

record CrawlResult =
  cr_products :: "Product list"
  cr_crawled_at :: datetime
  cr_total_products :: int
  cr_total_images :: int

definition add_product :: "Product \<Rightarrow> CrawlResult \<Rightarrow> CrawlResult" where
  "add_product p r =
     (let ps = cr_products r @ [p]
      in r\<lparr>cr_products := ps, cr_total_products := int (length ps),
            cr_total_images := (\<Sum>q\<leftarrow>ps. int (length (p_images q)))\<rparr>)"

definition sync_from_metadata :: "clock \<Rightarrow> CrawlResult \<Rightarrow> ChecklistManager \<Rightarrow> ChecklistManager" where
  "sync_from_metadata clk crawl_result m =
     (let c = checklist m;
          st = (stats c)\<lparr>total_products := cr_total_products crawl_result,
                          total_images := cr_total_images crawl_result,
                          downloads := (downloads (stats c))\<lparr>ds_successful := cr_total_images crawl_result\<rparr>\<rparr>;
          (t, m1) = now clk m;
          ms = (metadata_sync c)\<lparr>last_sync := Some t,
                                  products_in_metadata := cr_total_products crawl_result,
                                  images_in_metadata := cr_total_images crawl_result,
                                  sync_status := ''in_sync''\<rparr>
      in save clk (m1\<lparr>checklist := c\<lparr>stats := st, metadata_sync := ms\<rparr>\<rparr>))"

text \<open>
  \<open>ChecklistManager(path)\<close> on a path where no file exists: the default checklist, and
  nothing written yet.
\<close>

definition fresh_manager :: "clock \<Rightarrow> ChecklistManager" where
  "fresh_manager clk = \<lparr>checklist = StoreParserChecklist_default (clk 0) (clk 1), ledger_file = None, ticks = 2\<rparr>"

section \<open>Properties of the ledger, as predicates\<close>

text \<open>The ledger file holds the dump of the checklist in memory.\<close>

definition durable :: "ChecklistManager \<Rightarrow> bool" where
  "durable m = (ledger_file m = Some (checklist m))"

text \<open>
  After an operation the ledger file holds the document \<open>c\<close>, and so does the memory.
\<close>

definition written :: "ChecklistManager \<Rightarrow> StoreParserChecklist \<Rightarrow> bool" where
  "written m c = (ledger_file m = Some c \<and> checklist m = c)"

text \<open>The value an optional argument gives a field: its own, or the one the field had.\<close>

definition or_else :: "'a option \<Rightarrow> 'a \<Rightarrow> 'a" where
  "or_else v old = (case v of None \<Rightarrow> old | Some x \<Rightarrow> x)"

definition example_result :: JobResult where
  "example_result =
     \<lparr>success = True, jr_total_products = 12, jr_total_images = 30, new_products = 12,
      new_images = 30, skipped_products = 0, failed_downloads = 0, error_message = None\<rparr>"

text \<open>
  A ledger after a run's first steps: a session started, one job created, one error logged.
\<close>

definition example_ledger :: ChecklistManager where
  "example_ledger =
     snd (log_error int ''JOB-001'' CRAWL_FAILED ''navigation failed'' (Some ''classic-tee'') None
       (snd (create_job int FULL_CRAWL None ''high''
         (snd (start_session int ''0a1b2c3d4e5f60718293a4b5c6d7e8f9'' ''crawler-agent''
           (fresh_manager int))))))"








definition empty_metadata :: CrawlResult where
  "empty_metadata = \<lparr>cr_products = [], cr_crawled_at = 0, cr_total_products = 0, cr_total_images = 0\<rparr>"

section \<open>crawler.py: pagination\<close>

text \<open>
  The listing pages are external: \<open>listing n\<close> is what the selector
  \<open>a[href*="/products/"]\<close> finds on page \<open>n\<close>, each link given by what
  \<open>get_attribute("href")\<close> returns for it.
\<close>

type_synonym listing = "nat \<Rightarrow> string option list"

definition BASE_URL :: string where
  "BASE_URL = ''https://ggstore.com''"

text \<open>The inner loop over the links of one page, \<open>page_urls\<close> being built.\<close>

fun page_links :: "string list \<Rightarrow> string list \<Rightarrow> string option list \<Rightarrow> string list" where
  "page_links product_urls page_urls [] = page_urls"
| "page_links product_urls page_urls (None # links) = page_links product_urls page_urls links"
| "page_links product_urls page_urls (Some href # links) =
     (if href \<noteq> [] \<and> contains ''/products/'' href then
        (let full_url = (if startswith ''http'' href then href else BASE_URL @ href)
         in if full_url \<notin> set product_urls \<and> full_url \<notin> set page_urls
            then page_links product_urls (page_urls @ [full_url]) links
            else page_links product_urls page_urls links)
      else page_links product_urls page_urls links)"

text \<open>
  The \<open>while True\<close> loop, from the top of an iteration. \<open>requested\<close> lists the page
  numbers navigated to so far; the loop returns it with the URLs.
\<close>

function pages_loop :: "listing \<Rightarrow> nat \<Rightarrow> string list \<Rightarrow> nat list \<Rightarrow> string list \<times> nat list" where
  "pages_loop lst page_num product_urls requested =
     (let requested1 = requested @ [page_num];
          product_links = lst page_num
      in if product_links = [] then (product_urls, requested1)
         else (let page_urls = page_links product_urls [] product_links
               in if page_urls = [] then (product_urls, requested1)
                  else if page_num + 1 > 50 then (product_urls @ page_urls, requested1)
                  else pages_loop lst (page_num + 1) (product_urls @ page_urls) requested1))"
  by pat_completeness auto
termination
  by (relation "measure (\<lambda>(lst, page_num, product_urls, requested). 51 - page_num)") auto

declare pages_loop.simps [simp del]

text \<open>\<open>started\<close>: whether \<open>self._page\<close> is set.\<close>

definition get_product_urls :: "bool \<Rightarrow> listing \<Rightarrow> py_error + (string list \<times> nat list)" where
  "get_product_urls started lst =
     (if \<not> started then Inl RuntimeError else Inr (pages_loop lst 1 [] []))"

text \<open>
  What the pages up to \<open>n\<close> contribute when each is read after the ones before it, and what
  page \<open>n\<close> adds to them.
\<close>

fun collected :: "listing \<Rightarrow> nat \<Rightarrow> string list" where
  "collected lst 0 = []"
| "collected lst (Suc n) = collected lst n @ page_links (collected lst n) [] (lst (Suc n))"

definition new_on_page :: "listing \<Rightarrow> nat \<Rightarrow> string list" where
  "new_on_page lst n = page_links (collected lst (n - 1)) [] (lst n)"

text \<open>
  A listing whose second page repeats the first (a site that ignores the page parameter).
\<close>

definition example_listing :: listing where
  "example_listing n =
     [Some ''/products/classic-tee'', Some ''/products/cap-red'', None,
      Some ''https://ggstore.com/products/classic-tee'']"

section \<open>downloader.py: the image downloader\<close>

text \<open>
  What \<open>await self._client.get(url)\<close> followed by \<open>response.raise_for_status()\<close> comes to:
  the body of a successful response, or one of the two \<open>httpx.HTTPError\<close>s, raised by the
  transport or for the status. The network is a function \<open>net\<close> from the number of the
  request and its URL to that outcome.
\<close>

datatype response = Body string | TransportError | StatusError

type_synonym network = "nat \<Rightarrow> string \<Rightarrow> response"

text \<open>
  The downloader's state: \<open>self.output_dir\<close>, whether \<open>self._client\<close> is set, the files on
  disk (path to content), the text of \<open>self.metadata_file\<close> (\<open>None\<close> while the file does not
  exist), the number of requests sent and of clock readings made so far.
\<close>

record ImageDownloader =
  dl_output_dir :: string
  client :: bool
  files :: "string \<Rightarrow> string option"
  metadata_text :: "string option"
  sent :: nat
  dl_ticks :: nat




definition download_image ::
  "network \<Rightarrow> string \<Rightarrow> string \<Rightarrow> ImageDownloader \<Rightarrow> py_error + (bool \<times> ImageDownloader)" where
  "download_image net url filepath d =
     (if \<not> client d then Inl RuntimeError
      else
        (let d1 = d\<lparr>sent := Suc (sent d)\<rparr>
         in case net (sent d) url of
              Body content \<Rightarrow> Inr (True, d1\<lparr>files := (files d1)(filepath \<mapsto> content)\<rparr>)
            | TransportError \<Rightarrow> Inr (False, d1)
            | StatusError \<Rightarrow> Inr (False, d1)))"

definition image_record :: "clock \<Rightarrow> string \<Rightarrow> string \<Rightarrow> string \<Rightarrow> ImageDownloader \<Rightarrow> ProductImage \<times> ImageDownloader" where
  "image_record clk name url filepath d =
     (\<lparr>filename = name, original_url = url, local_path = filepath, downloaded_at = clk (dl_ticks d)\<rparr>,
      d\<lparr>dl_ticks := Suc (dl_ticks d)\<rparr>)"

text \<open>
  The first loop of \<open>download_product_images\<close>, over \<open>enumerate(image_urls, 1)\<close> from index
  \<open>i\<close> on: a record for every file already there, a task \<open>(url, filepath, filename)\<close> for
  the others.
\<close>

type_synonym task = "string \<times> string \<times> string"


text \<open>The second loop: the downloads, one after the other.\<close>

fun run_tasks ::
  "network \<Rightarrow> clock \<Rightarrow> task list \<Rightarrow> ProductImage list \<Rightarrow> ImageDownloader \<Rightarrow>
   py_error + (ProductImage list \<times> ImageDownloader)" where
  "run_tasks net clk [] imgs d = Inr (imgs, d)"
| "run_tasks net clk ((url, filepath, name) # tasks) imgs d =
     (case download_image net url filepath d of
        Inl e \<Rightarrow> Inl e
      | Inr (ok, d1) \<Rightarrow>
          if ok then
            (let (img, d2) = image_record clk name url filepath d1
             in run_tasks net clk tasks (imgs @ [img]) d2)
          else run_tasks net clk tasks imgs d1)"


text \<open>
  \<open>load_metadata\<close>. Reading the text, \<open>json.loads\<close> and \<open>CrawlResult.model_validate\<close> are
  the function \<open>decode\<close>, \<open>None\<close> where one of them raises: the \<open>except Exception\<close> around the
  three turns every such exception into \<open>None\<close>.
\<close>

type_synonym decoder = "string \<Rightarrow> CrawlResult option"

definition load_metadata :: "decoder \<Rightarrow> ImageDownloader \<Rightarrow> CrawlResult option" where
  "load_metadata decode d =
     (case metadata_text d of
        None \<Rightarrow> None
      | Some content \<Rightarrow> decode content)"

text \<open>A pydantic model is always truthy, so \<open>if metadata\<close> tests for \<open>None\<close>.\<close>

definition get_downloaded_product_ids :: "decoder \<Rightarrow> ImageDownloader \<Rightarrow> string set" where
  "get_downloaded_product_ids decode d =
     (case load_metadata decode d of
        Some metadata \<Rightarrow> set (map p_id (cr_products metadata))
      | None \<Rightarrow> {})"

subsection \<open>main.py: the skip of products already downloaded\<close>

definition existing_ids :: "decoder \<Rightarrow> bool \<Rightarrow> ImageDownloader \<Rightarrow> string set" where
  "existing_ids decode skip d = (if skip then get_downloaded_product_ids decode d else {})"

text \<open>The test \<open>product_id in existing_ids\<close> of the loop over the product URLs.\<close>

definition skips_product :: "decoder \<Rightarrow> bool \<Rightarrow> ImageDownloader \<Rightarrow> string \<Rightarrow> bool" where
  "skips_product decode skip d product_id = (product_id \<in> existing_ids decode skip d)"

subsection \<open>Notions for the downloader's properties\<close>











section \<open>parser.py: the product page parser\<close>

subsection \<open>Regular expressions\<close>

text \<open>
  The part of \<open>re\<close> that the parser's patterns use: literal text, one character of a
  class, a class repeated greedily (\<open>*\<close>, \<open>+\<close>), an optional item, sequence and
  alternative. \<open>alts\<close> lists the ways an expression matches at the head of a text, as
  (matched text, rest), in the order the backtracking matcher tries them; under
  \<open>re.IGNORECASE\<close> (\<open>ic\<close>) literal text matches in either case.
\<close>

datatype rx =
    Lit string
  | One "char \<Rightarrow> bool"
  | Star "char \<Rightarrow> bool"
  | Plus "char \<Rightarrow> bool"
  | Opt rx
  | Cat rx rx
  | Alt rx rx

fun alts :: "bool \<Rightarrow> rx \<Rightarrow> string \<Rightarrow> (string \<times> string) list" where
  "alts ic (Lit l) s =
     (if (if ic then lower (take (length l) s) = lower l else take (length l) s = l)
      then [(take (length l) s, drop (length l) s)] else [])"
| "alts ic (One P) s = (case s of [] \<Rightarrow> [] | c # cs \<Rightarrow> if P c then [([c], cs)] else [])"
| "alts ic (Star P) s = map (\<lambda>k. (take k s, drop k s)) (rev [0..<Suc (length (takeWhile P s))])"
| "alts ic (Plus P) s = map (\<lambda>k. (take k s, drop k s)) (rev [1..<Suc (length (takeWhile P s))])"
| "alts ic (Opt r) s = alts ic r s @ [([], s)]"
| "alts ic (Cat a b) s =
     concat (map (\<lambda>(x, t). map (\<lambda>(y, u). (x @ y, u)) (alts ic b t)) (alts ic a s))"
| "alts ic (Alt a b) s = alts ic a s @ alts ic b s"

fun chain :: "rx list \<Rightarrow> rx" where
  "chain [] = Lit []"
| "chain [r] = r"
| "chain (r # q # rs) = Cat r (chain (q # rs))"

text \<open>
  A pattern with one group: what comes before the group, the group, what comes after.
  \<open>match_at\<close> is the match at the head of a text: group 1 and the length of the match.
\<close>

record pattern =
  ignorecase :: bool
  before_group :: rx
  group :: rx
  after_group :: rx

definition match_at :: "pattern \<Rightarrow> string \<Rightarrow> (string \<times> nat) option" where
  "match_at p s =
     (case concat (map (\<lambda>(x, t).
              concat (map (\<lambda>(g, u).
                 map (\<lambda>(z, w). (g, length x + length g + length z))
                     (alts (ignorecase p) (after_group p) u))
                 (alts (ignorecase p) (group p) t)))
            (alts (ignorecase p) (before_group p) s)) of
        [] \<Rightarrow> None
      | m # ms \<Rightarrow> Some m)"

text \<open>\<open>re.search\<close>: group 1 of the leftmost match.\<close>

fun search :: "pattern \<Rightarrow> string \<Rightarrow> string option" where
  "search p [] = map_option fst (match_at p [])"
| "search p (c # cs) =
     (case match_at p (c # cs) of
        Some (g, n) \<Rightarrow> Some g
      | None \<Rightarrow> search p cs)"

text \<open>
  \<open>finditer\<close>, as the list of group 1 of the matches, for a pattern that matches no empty
  text; \<open>k\<close> characters of the last match are still to skip.
\<close>

fun finditer_from :: "nat \<Rightarrow> pattern \<Rightarrow> string \<Rightarrow> string list" where
  "finditer_from k p [] = []"
| "finditer_from (Suc k) p (c # cs) = finditer_from k p cs"
| "finditer_from 0 p (c # cs) =
     (case match_at p (c # cs) of
        Some (g, n) \<Rightarrow> g # finditer_from (n - 1) p cs
      | None \<Rightarrow> finditer_from 0 p cs)"

definition finditer :: "pattern \<Rightarrow> string \<Rightarrow> string list" where
  "finditer p s = finditer_from 0 p s"

subsection \<open>The patterns\<close>

definition dq :: char where
  "dq = CHR 0x22"

definition sq :: char where
  "sq = CHR 0x27"

definition quote :: "char \<Rightarrow> bool" where
  "quote c = (c = dq \<or> c = sq)"

definition price_char :: "char \<Rightarrow> bool" where
  "price_char c = (isdigit c \<or> c = CHR '','' \<or> c = CHR ''.'')"

definition category_char :: "char \<Rightarrow> bool" where
  "category_char c = (c \<noteq> CHR ''/'' \<and> \<not> quote c \<and> c \<noteq> CHR ''?'' \<and> \<not> isspace c)"

definition og_title_pattern :: pattern where
  "og_title_pattern =
     \<lparr>ignorecase = True,
      before_group = chain [Lit ''<meta'', Star (\<lambda>c. c \<noteq> CHR ''>''), Lit ''property='', One quote,
                          Lit ''og:title'', One quote, Star (\<lambda>c. c \<noteq> CHR ''>''), Lit ''content='',
                          One quote],
      group = Plus (\<lambda>c. \<not> quote c),
      after_group = One quote\<rparr>"

definition title_pattern :: pattern where
  "title_pattern =
     \<lparr>ignorecase = True, before_group = Lit ''<title>'', group = Plus (\<lambda>c. c \<noteq> CHR ''<''),
      after_group = Lit ''</title>''\<rparr>"

definition h1_pattern :: pattern where
  "h1_pattern =
     \<lparr>ignorecase = True,
      before_group = chain [Lit ''<h1'', Star (\<lambda>c. c \<noteq> CHR ''>''), Lit ''>''],
      group = Plus (\<lambda>c. c \<noteq> CHR ''<''),
      after_group = Lit ''</h1>''\<rparr>"

definition price_patterns :: "pattern list" where
  "price_patterns =
     [\<lparr>ignorecase = True,
       before_group = chain [Lit ''<span'', Star (\<lambda>c. c \<noteq> CHR ''>''), Lit ''class='', One quote,
                           Star (\<lambda>c. \<not> quote c), Lit ''price'', Star (\<lambda>c. \<not> quote c), One quote,
                           Star (\<lambda>c. c \<noteq> CHR ''>''), Lit ''>'', Star isspace, Opt (Lit ''$'')],
       group = Plus price_char, after_group = Lit []\<rparr>,
      \<lparr>ignorecase = True,
       before_group = chain [Lit (dq # ''price'' @ [dq] @ '':''), Star isspace, Opt (Lit [dq]),
                           Opt (Lit ''$'')],
       group = Plus price_char, after_group = Lit []\<rparr>,
      \<lparr>ignorecase = True,
       before_group = chain [Lit ''data-price='', One quote],
       group = Plus isdigit, after_group = Lit []\<rparr>]"

definition collection_pattern :: pattern where
  "collection_pattern =
     \<lparr>ignorecase = False, before_group = Lit ''/collections/'', group = Plus category_char,
      after_group = Lit []\<rparr>"

definition srcset_pattern :: pattern where
  "srcset_pattern =
     \<lparr>ignorecase = True, before_group = chain [Lit ''srcset='', One quote],
      group = Plus (\<lambda>c. \<not> quote c), after_group = One quote\<rparr>"

definition src_pattern :: pattern where
  "src_pattern =
     \<lparr>ignorecase = True, before_group = chain [Lit ''src='', One quote],
      group = chain [Plus (\<lambda>c. \<not> quote c), Lit ''cdn/shop/'', Alt (Lit ''files'') (Lit ''products''),
                   Lit ''/'', Plus (\<lambda>c. \<not> quote c)],
      after_group = One quote\<rparr>"

definition data_src_pattern :: pattern where
  "data_src_pattern =
     \<lparr>ignorecase = True, before_group = chain [Lit ''data-src='', One quote],
      group = Plus (\<lambda>c. \<not> quote c), after_group = One quote\<rparr>"

definition json_pattern :: pattern where
  "json_pattern =
     \<lparr>ignorecase = True,
      before_group = chain [Lit (dq # ''src'' @ [dq] @ '':''), Star isspace, Lit [dq]],
      group = chain [Plus (\<lambda>c. c \<noteq> dq), Lit ''cdn/shop/'', Plus (\<lambda>c. c \<noteq> dq)],
      after_group = Lit [dq]\<rparr>"

subsection \<open>The extractors\<close>

text \<open>The parser object: \<open>self.base_url\<close>.\<close>

record GGStoreParser =
  base_url :: string

definition default_parser :: GGStoreParser where
  "default_parser = \<lparr>base_url = ''https://ggstore.com''\<rparr>"

definition IMAGE_EXTENSIONS :: "string list" where
  "IMAGE_EXTENSIONS = [''.jpg'', ''.jpeg'', ''.png'', ''.webp'', ''.gif'']"

definition slash :: "char \<Rightarrow> bool" where
  "slash c = (c = CHR ''/'')"

definition extract_product_id :: "pylib \<Rightarrow> string \<Rightarrow> py_error + string" where
  "extract_product_id L url =
     (case urlparse L url [] of
        Inl e \<Rightarrow> Inl e
      | Inr r \<Rightarrow>
          (let parts = split_on CHR ''/'' (strip slash (path r));
               idx = length (takeWhile (\<lambda>p. p \<noteq> ''products'') parts)
           in if ''products'' \<in> set parts \<and> idx + 1 < length parts then Inr (parts ! (idx + 1))
              else Inr (replace ''/'' ''-'' (strip slash (path r)))))"

text \<open>\<open>s.split(sep)[0]\<close>: the text before the first occurrence of \<open>sep\<close>.\<close>

fun split_first :: "string \<Rightarrow> string \<Rightarrow> string" where
  "split_first sep [] = []"
| "split_first sep (c # cs) = (if startswith sep (c # cs) then [] else c # split_first sep cs)"

text \<open>The en dash, in UTF-8.\<close>

definition en_dash :: string where
  "en_dash = [CHR 0xE2, CHR 0x80, CHR 0x93]"

definition extract_product_name :: "string \<Rightarrow> string" where
  "extract_product_name html =
     (case search og_title_pattern html of
        Some g \<Rightarrow> strip isspace g
      | None \<Rightarrow>
          (case search title_pattern html of
             Some g \<Rightarrow>
               (let title0 = strip isspace g;
                    title1 = (if contains ''|'' title0 then strip isspace (split_first ''|'' title0)
                              else title0)
                in if contains en_dash title1 then strip isspace (split_first en_dash title1)
                   else title1)
           | None \<Rightarrow>
               (case search h1_pattern html of
                  Some g \<Rightarrow> strip isspace g
                | None \<Rightarrow> ''Unknown Product'')))"

fun first_price :: "pattern list \<Rightarrow> string \<Rightarrow> string option" where
  "first_price [] html = None"
| "first_price (p # ps) html =
     (case search p html of
        Some g \<Rightarrow> if strip isspace g \<noteq> [] then Some (''$'' @ strip isspace g) else first_price ps html
      | None \<Rightarrow> first_price ps html)"

definition extract_price :: "string \<Rightarrow> string option" where
  "extract_price html = first_price price_patterns html"

definition extract_category :: "string \<Rightarrow> string option" where
  "extract_category html =
     (case search collection_pattern html of
        Some g \<Rightarrow> if lower g \<noteq> ''all'' then Some (replace ''-'' '' '' (upper g)) else None
      | None \<Rightarrow> None)"

definition is_product_image :: "pylib \<Rightarrow> string \<Rightarrow> py_error + bool" where
  "is_product_image L url =
     (if url = [] then Inr False
      else if \<not> contains ''cdn/shop/'' url then Inr False
      else case urlparse L url [] of
        Inl e \<Rightarrow> Inl e
      | Inr r \<Rightarrow>
          (let url_path = lower (path r);
               has_ext = list_ex (\<lambda>ext. endswith ext url_path \<or> contains (ext @ ''?'') (lower url_path))
                           IMAGE_EXTENSIONS
           in Inr (has_ext \<or> list_ex (\<lambda>ext. contains ext url_path) IMAGE_EXTENSIONS)))"

definition normalize_url :: "pylib \<Rightarrow> GGStoreParser \<Rightarrow> string \<Rightarrow> py_error + string" where
  "normalize_url L self url0 =
     (let url1 = unescape L url0
      in case (if startswith ''//'' url1 then Inr (''https:'' @ url1)
               else if \<not> startswith ''http'' url1 then urljoin L (base_url self) url1
               else Inr url1) of
           Inl e \<Rightarrow> Inl e
         | Inr url \<Rightarrow>
             (case urlparse L url [] of
                Inl e \<Rightarrow> Inl e
              | Inr parsed \<Rightarrow> Inr (geturl (parsed\<lparr>query := []\<rparr>))))"

text \<open>
  A \<open>for\<close> loop whose body can raise. The set \<open>image_urls\<close> is kept as the list of the
  values added to it, in the order of the \<open>add\<close> calls.
\<close>

fun for_each :: "('a \<Rightarrow> 's \<Rightarrow> py_error + 's) \<Rightarrow> 'a list \<Rightarrow> 's \<Rightarrow> py_error + 's" where
  "for_each body [] s = Inr s"
| "for_each body (x # xs) s =
     (case body x s of
        Inl e \<Rightarrow> Inl e
      | Inr s1 \<Rightarrow> for_each body xs s1)"

definition add_if_image :: "pylib \<Rightarrow> GGStoreParser \<Rightarrow> string \<Rightarrow> string list \<Rightarrow> py_error + string list" where
  "add_if_image L self url added =
     (case is_product_image L url of
        Inl e \<Rightarrow> Inl e
      | Inr False \<Rightarrow> Inr added
      | Inr True \<Rightarrow>
          (case normalize_url L self url of
             Inl e \<Rightarrow> Inl e
           | Inr v \<Rightarrow> Inr (added @ [v])))"

text \<open>One candidate of a \<open>srcset\<close>: \<open>src.strip().split()[0]\<close> raises on an empty list.\<close>

definition srcset_candidate :: "pylib \<Rightarrow> GGStoreParser \<Rightarrow> string \<Rightarrow> string list \<Rightarrow> py_error + string list" where
  "srcset_candidate L self src added =
     (case split_whitespace (strip isspace src) of
        [] \<Rightarrow> Inl IndexError
      | url # rest \<Rightarrow> add_if_image L self url added)"

definition backslash_slash :: string where
  "backslash_slash = [CHR 0x5C, CHR ''/'']"

text \<open>The four scans of \<open>_extract_image_urls\<close>: the values added to the set, in order.\<close>

definition image_urls_added :: "pylib \<Rightarrow> GGStoreParser \<Rightarrow> string \<Rightarrow> py_error + string list" where
  "image_urls_added L self html =
     (case for_each (\<lambda>srcset. for_each (srcset_candidate L self) (split_on CHR '','' srcset))
             (finditer srcset_pattern html) [] of
        Inl e \<Rightarrow> Inl e
      | Inr a1 \<Rightarrow>
     (case for_each (add_if_image L self) (finditer src_pattern html) a1 of
        Inl e \<Rightarrow> Inl e
      | Inr a2 \<Rightarrow>
     (case for_each (add_if_image L self) (finditer data_src_pattern html) a2 of
        Inl e \<Rightarrow> Inl e
      | Inr a3 \<Rightarrow>
          for_each (\<lambda>g. add_if_image L self (replace backslash_slash ''/'' g))
            (finditer json_pattern html) a3)))"

text \<open>\<open>sorted(image_urls)\<close>: strings compare by code point, which is the order of their bytes.\<close>

definition extract_image_urls :: "pylib \<Rightarrow> GGStoreParser \<Rightarrow> string \<Rightarrow> py_error + string list" where
  "extract_image_urls L self html =
     (case image_urls_added L self html of
        Inl e \<Rightarrow> Inl e
      | Inr added \<Rightarrow> Inr (sorted_list_of_set (set added)))"

record ProductCandidate =
  pc_id :: string
  pc_name :: string
  pc_url :: string
  pc_price :: "string option"
  pc_category :: "string option"
  pc_image_urls :: "string list"

definition parse_product :: "pylib \<Rightarrow> GGStoreParser \<Rightarrow> string \<Rightarrow> string \<Rightarrow> py_error + ProductCandidate" where
  "parse_product L self html url =
     (case extract_product_id L url of
        Inl e \<Rightarrow> Inl e
      | Inr product_id \<Rightarrow>
          (let name = extract_product_name html;
               pr = extract_price html;
               cat = extract_category html
           in case extract_image_urls L self html of
                Inl e \<Rightarrow> Inl e
              | Inr image_urls \<Rightarrow>
                  Inr \<lparr>pc_id = product_id, pc_name = name, pc_url = url, pc_price = pr,
                       pc_category = cat, pc_image_urls = image_urls\<rparr>))"

subsection \<open>Notions for the parser's properties\<close>

text \<open>The list without the repeats of earlier elements: first-seen order.\<close>

fun first_seen_order :: "string list \<Rightarrow> string list \<Rightarrow> string list" where
  "first_seen_order seen [] = []"
| "first_seen_order seen (x # xs) =
     (if x \<in> set seen then first_seen_order seen xs else x # first_seen_order (x # seen) xs)"

text \<open>The segment that follows the first \<open>products\<close> segment, if there is one.\<close>

fun after_products :: "string list \<Rightarrow> string option" where
  "after_products [] = None"
| "after_products [p] = None"
| "after_products (p # q # ps) = (if p = ''products'' then Some q else after_products (q # ps))"

section \<open>Lemmas on the list primitives\<close>

lemma find_append_unseen:
  "find P xs = None \<Longrightarrow> find P (xs @ [x]) = (if P x then Some x else None)"
  by (induction xs) (auto split: if_splits)

lemma update_first_append_unseen:
  "find P xs = None \<Longrightarrow> update_first P f (xs @ [x]) = xs @ [if P x then f x else x]"
  by (induction xs) (auto split: if_splits)

lemma filter_unseen: "find P xs = None \<Longrightarrow> filter P xs = []"
  by (induction xs) (auto split: if_splits)

lemma length_update_first [simp]: "length (update_first P f xs) = length xs"
  by (induction xs) auto

section \<open>Upsert convergence\<close>

text \<open>
  Claim C1. For a product identifier that the ledger does not hold yet, two calls of
  \<open>add_or_update_product\<close> with that identifier (whatever the names, counts, prices and
  categories of the two calls) leave exactly one entry with the identifier: the list grew by
  one, the entry is the one the second call returns, its \<open>crawl_count\<close> is 2, its
  \<open>last_crawled\<close> is the time the second call read, and its image counts are those of the
  second call.
\<close>

theorem upsert_convergence:
  assumes unseen: "find_product pid (checklist m) = None"
  shows "let m1 = snd (add_or_update_product clk pid name1 url1 job1 status1 ic1 dc1 fc1 pr1 cat1 m);
             r2 = add_or_update_product clk pid name2 url2 job2 status2 ic2 dc2 fc2 pr2 cat2 m1;
             ps = products (checklist (snd r2))
         in length (filter (\<lambda>p. pe_id p = pid) ps) = 1 \<and>
            length ps = length (products (checklist m)) + 1 \<and>
            find_product pid (checklist (snd r2)) = Some (fst r2) \<and>
            map_option crawl_count (crawl_info (fst r2)) = Some 2 \<and>
            map_option last_crawled (crawl_info (fst r2)) = Some (clk (ticks m1)) \<and>
            im_total (images (fst r2)) = ic2 \<and>
            im_downloaded (images (fst r2)) = dc2 \<and>
            im_failed (images (fst r2)) = fc2"
  using unseen
  by (simp add: add_or_update_product_def find_product_def now_def save_def Let_def
      find_append_unseen update_first_append_unseen filter_unseen new_entry_def update_existing_def)

theorem upsert_convergence_witness:
  "find_product ''classic-tee'' (checklist (fresh_manager int)) = None \<and>
   (let m1 = snd (add_or_update_product int ''classic-tee'' ''Classic Tee''
                    ''https://ggstore.com/products/classic-tee'' ''JOB-001'' COMPLETED 5 3 2
                    None None (fresh_manager int));
        r2 = add_or_update_product int ''classic-tee'' ''Classic Tee''
               ''https://ggstore.com/products/classic-tee'' ''JOB-002'' COMPLETED 5 5 0
               (Some ''$19.99'') (Some ''TEES'') m1;
        ps = products (checklist (snd r2))
    in length (filter (\<lambda>p. pe_id p = ''classic-tee'') ps) = 1 \<and>
       length ps = length (products (checklist (fresh_manager int))) + 1 \<and>
       find_product ''classic-tee'' (checklist (snd r2)) = Some (fst r2) \<and>
       map_option crawl_count (crawl_info (fst r2)) = Some 2 \<and>
       map_option last_crawled (crawl_info (fst r2)) = Some (int (ticks m1)) \<and>
       im_total (images (fst r2)) = 5 \<and>
       im_downloaded (images (fst r2)) = 5 \<and>
       im_failed (images (fst r2)) = 0)"
proof -
  have h: "find_product ''classic-tee'' (checklist (fresh_manager int)) = None"
    by (simp add: find_product_def fresh_manager_def StoreParserChecklist_default_def)
  show ?thesis
    by (rule conjI [OF h upsert_convergence [OF h]])
qed

section \<open>Durability\<close>

lemma idle_update_session_progress:
  "current_session (checklist m) = None \<Longrightarrow>
   update_session_progress clk discovered crawled skipped downloaded failed page last_url m = m"
  by (simp add: update_session_progress_def)

lemma idle_jobs:
  "find_job job_id (checklist m) = None \<Longrightarrow>
   start_job clk job_id agent m = (None, m) \<and> complete_job clk job_id res m = (None, m)"
  by (simp add: start_job_def complete_job_def)

lemma idle_resolve_error:
  "find (\<lambda>e. ee_id e = error_id) (errors (checklist m)) = None \<Longrightarrow>
   resolve_error clk error_id m = (False, m)"
  by (simp add: resolve_error_def)

lemma find_update_first_const:
  "find P xs = Some e \<Longrightarrow> P y \<Longrightarrow> find P (update_first P (\<lambda>_. y) xs) = Some y"
  by (induction xs) (auto split: if_splits)

lemma find_update_first_map:
  "(\<And>x. P x \<Longrightarrow> P (f x)) \<Longrightarrow> find P (update_first P f xs) = map_option f (find P xs)"
  by (induction xs) auto

lemma find_holds: "find P xs = Some e \<Longrightarrow> P e"
  by (induction xs) (auto split: if_splits)

lemma written_save: "written (save clk m) ((checklist m)\<lparr>updated_at := clk (ticks m)\<rparr>)"
  by (simp add: written_def save_def now_def Let_def)

lemma written_durable: "written m c \<Longrightarrow> durable m"
  by (simp add: written_def durable_def)

lemma written_start_session:
  "written (snd (start_session clk uuid_hex agent m))
     ((checklist m)\<lparr>current_session := Some (fst (start_session clk uuid_hex agent m)),
                     updated_at := clk (Suc (ticks m))\<rparr>) \<and>
   fst (start_session clk uuid_hex agent m) =
     \<lparr>cs_id = ''SESSION-'' @ upper (take 8 uuid_hex), cs_started_at = clk (ticks m),
      cs_status = IN_PROGRESS, cs_agent = Some agent, progress = SessionProgress_default\<rparr>"
  by (simp add: start_session_def written_def save_def now_def Let_def)

lemma written_update_session_progress:
  "current_session (checklist m) = Some s \<Longrightarrow>
   written (update_session_progress clk discovered crawled skipped downloaded failed page last_url m)
     ((checklist m)\<lparr>current_session := Some (s\<lparr>progress :=
         \<lparr>products_discovered = or_else discovered (products_discovered (progress s)),
          products_crawled = or_else crawled (products_crawled (progress s)),
          products_skipped = or_else skipped (products_skipped (progress s)),
          images_downloaded = or_else downloaded (images_downloaded (progress s)),
          images_failed = or_else failed (images_failed (progress s)),
          current_page = or_else page (current_page (progress s)),
          last_product_url = (case last_url of None \<Rightarrow> last_product_url (progress s) | Some u \<Rightarrow> Some u)\<rparr>\<rparr>),
        updated_at := clk (ticks m)\<rparr>)"
  by (simp add: update_session_progress_def written_def save_def now_def Let_def set_opt_def or_else_def
      split: option.splits)

lemma written_end_session:
  "written (end_session clk status m)
     ((checklist m)\<lparr>current_session := map_option (\<lambda>s. s\<lparr>cs_status := status\<rparr>) (current_session (checklist m)),
                     updated_at := clk (ticks m)\<rparr>)"
  by (simp add: end_session_def written_def save_def now_def Let_def split: option.splits)

lemma written_create_job:
  "written (snd (create_job clk job_type cfg prio m))
     ((checklist m)\<lparr>jobs := jobs (checklist m) @ [fst (create_job clk job_type cfg prio m)],
        stats := (stats (checklist m))\<lparr>st_jobs := (st_jobs (stats (checklist m)))
           \<lparr>js_total := js_total (st_jobs (stats (checklist m))) + 1,
            js_pending := js_pending (st_jobs (stats (checklist m))) + 1\<rparr>\<rparr>,
        updated_at := clk (ticks m)\<rparr>) \<and>
   fst (create_job clk job_type cfg prio m) =
     \<lparr>cj_id = ''JOB-'' @ format_0d 3 (length (jobs (checklist m)) + 1), cj_type = job_type,
      cj_status = PENDING, priority = prio, execution = JobExecution_default,
      config = (case cfg of None \<Rightarrow> JobConfig_default | Some k \<Rightarrow> k), cj_result = None,
      files_modified = []\<rparr>"
  by (simp add: create_job_def written_def save_def now_def Let_def)

lemma written_start_job:
  assumes "find_job job_id (checklist m) = Some job"
  shows "durable (snd (start_job clk job_id agent m)) \<and>
     find_job job_id (checklist (snd (start_job clk job_id agent m))) = fst (start_job clk job_id agent m) \<and>
     fst (start_job clk job_id agent m) =
       Some (job\<lparr>cj_status := IN_PROGRESS,
                  execution := (execution job)\<lparr>ex_agent := Some agent, ex_started_at := Some (clk (ticks m))\<rparr>\<rparr>) \<and>
     updated_at (checklist (snd (start_job clk job_id agent m))) = clk (Suc (ticks m))"
proof -
  have id: "cj_id job = job_id" using find_holds [of "\<lambda>j. cj_id j = job_id" "jobs (checklist m)" job] assms
    by (simp add: find_job_def)
  show ?thesis using assms id
    by (simp add: start_job_def durable_def save_def now_def Let_def find_job_def find_update_first_const)
qed

lemma written_complete_job:
  assumes "find_job job_id (checklist m) = Some job"
  shows "durable (snd (complete_job clk job_id res m)) \<and>
     find_job job_id (checklist (snd (complete_job clk job_id res m))) = fst (complete_job clk job_id res m) \<and>
     map_option cj_status (fst (complete_job clk job_id res m)) = Some (if success res then COMPLETED else FAILED) \<and>
     map_option cj_result (fst (complete_job clk job_id res m)) = Some (Some res) \<and>
     map_option (\<lambda>j. ex_completed_at (execution j)) (fst (complete_job clk job_id res m)) = Some (Some (clk (ticks m))) \<and>
     js_completed (st_jobs (stats (checklist (snd (complete_job clk job_id res m))))) =
       js_completed (st_jobs (stats (checklist m))) + (if success res then 1 else 0) \<and>
     js_failed (st_jobs (stats (checklist (snd (complete_job clk job_id res m))))) =
       js_failed (st_jobs (stats (checklist m))) + (if success res then 0 else 1)"
proof -
  have id: "cj_id job = job_id" using find_holds [of "\<lambda>j. cj_id j = job_id" "jobs (checklist m)" job] assms
    by (simp add: find_job_def)
  show ?thesis using assms id
    by (auto simp add: complete_job_def durable_def save_def now_def Let_def find_job_def
        find_update_first_const split: option.splits)
qed

lemma pe_id_update_existing: "pe_id (update_existing t j s ic dc fc pr cat e) = pe_id e"
  by (simp add: update_existing_def Let_def split: option.splits)

lemma written_add_or_update_product:
  "durable (snd (add_or_update_product clk product_id name url job_id status ic dc fc pr cat m)) \<and>
   find_product product_id (checklist (snd (add_or_update_product clk product_id name url job_id status ic dc fc pr cat m))) =
     Some (fst (add_or_update_product clk product_id name url job_id status ic dc fc pr cat m)) \<and>
   pe_status (fst (add_or_update_product clk product_id name url job_id status ic dc fc pr cat m)) = status \<and>
   images (fst (add_or_update_product clk product_id name url job_id status ic dc fc pr cat m)) =
     \<lparr>im_total = ic, im_downloaded = dc, im_failed = fc, im_status = status\<rparr> \<and>
   updated_at (checklist (snd (add_or_update_product clk product_id name url job_id status ic dc fc pr cat m))) =
     clk (Suc (ticks m))"
proof (cases "find_product product_id (checklist m)")
  case None
  then show ?thesis
    by (simp add: add_or_update_product_def durable_def save_def now_def Let_def find_product_def
        find_append_unseen new_entry_def)
next
  case (Some e)
  then have id: "pe_id e = product_id"
    using find_holds [of "\<lambda>p. pe_id p = product_id" "products (checklist m)" e]
    by (simp add: find_product_def)
  have im: "images (update_existing t job_id status ic dc fc pr cat e) =
      \<lparr>im_total = ic, im_downloaded = dc, im_failed = fc, im_status = status\<rparr>" for t
    by (simp add: update_existing_def Let_def split: option.splits)
  have st: "pe_status (update_existing t job_id status ic dc fc pr cat e) = status" for t
    by (simp add: update_existing_def Let_def split: option.splits)
  show ?thesis using Some id
    by (simp add: add_or_update_product_def durable_def save_def now_def Let_def find_product_def
        find_update_first_const pe_id_update_existing im st)
qed

lemma written_log_error:
  "written (snd (log_error clk job_id error_type message pid_opt url_opt m))
     ((checklist m)\<lparr>errors := errors (checklist m) @ [fst (log_error clk job_id error_type message pid_opt url_opt m)],
                     updated_at := clk (Suc (ticks m))\<rparr>) \<and>
   fst (log_error clk job_id error_type message pid_opt url_opt m) =
     \<lparr>ee_id = ''ERR-'' @ format_0d 3 (length (errors (checklist m)) + 1), ee_timestamp = clk (ticks m),
      ee_job_id = job_id, ee_product_id = pid_opt, ee_type = error_type, ee_url = url_opt,
      ee_message = message, retry_count = 0, resolved = False\<rparr>"
  by (simp add: log_error_def written_def save_def now_def Let_def)

lemma written_resolve_error:
  assumes "find (\<lambda>e. ee_id e = error_id) (errors (checklist m)) = Some err"
  shows "fst (resolve_error clk error_id m) \<and>
     durable (snd (resolve_error clk error_id m)) \<and>
     find (\<lambda>e. ee_id e = error_id) (errors (checklist (snd (resolve_error clk error_id m)))) =
       Some (err\<lparr>resolved := True\<rparr>) \<and>
     updated_at (checklist (snd (resolve_error clk error_id m))) = clk (ticks m)"
  using assms
  by (simp add: resolve_error_def durable_def save_def now_def Let_def find_update_first_map)

lemma written_sync_from_metadata:
  "written (sync_from_metadata clk crawl_result m)
     ((checklist m)\<lparr>
        stats := (stats (checklist m))\<lparr>total_products := cr_total_products crawl_result,
           total_images := cr_total_images crawl_result,
           downloads := (downloads (stats (checklist m)))\<lparr>ds_successful := cr_total_images crawl_result\<rparr>\<rparr>,
        metadata_sync := (metadata_sync (checklist m))\<lparr>last_sync := Some (clk (ticks m)),
           products_in_metadata := cr_total_products crawl_result,
           images_in_metadata := cr_total_images crawl_result, sync_status := ''in_sync''\<rparr>,
        updated_at := clk (Suc (ticks m))\<rparr>)"
  by (simp add: sync_from_metadata_def written_def save_def now_def Let_def)

text \<open>
  Claim C4. Every mutating ledger operation ends in \<open>save\<close>, and \<open>save\<close> stamps
  \<open>updated_at\<close> and writes the whole checklist: on return the ledger file holds the
  checklist in memory, and that checklist is the one the operation found with the
  operation's change made to it. For each of the ten operations the change is stated against
  the checklist before the call: the session set, the progress fields given, the session's
  status, the job appended and counted, the job found now in progress, the job found now
  completed or failed and counted, the product entry found under its identifier with the
  call's status and image counts, the error appended, the error found now resolved, the
  metadata counts copied. The calls that find nothing to mutate (\<open>update_session_progress\<close>
  without a session, \<open>start_job\<close> and \<open>complete_job\<close> on an unknown job, \<open>resolve_error\<close>
  on an unknown error) return with the manager as it was, file included.
\<close>

theorem durability:
  "written (save clk m) ((checklist m)\<lparr>updated_at := clk (ticks m)\<rparr>) \<and>
   (written (snd (start_session clk uuid_hex agent m))
      ((checklist m)\<lparr>current_session := Some (fst (start_session clk uuid_hex agent m)),
                      updated_at := clk (Suc (ticks m))\<rparr>) \<and>
    fst (start_session clk uuid_hex agent m) =
      \<lparr>cs_id = ''SESSION-'' @ upper (take 8 uuid_hex), cs_started_at = clk (ticks m),
       cs_status = IN_PROGRESS, cs_agent = Some agent, progress = SessionProgress_default\<rparr>) \<and>
   (current_session (checklist m) = Some s \<longrightarrow>
      written (update_session_progress clk discovered crawled skipped downloaded failed page last_url m)
        ((checklist m)\<lparr>current_session := Some (s\<lparr>progress :=
            \<lparr>products_discovered = or_else discovered (products_discovered (progress s)),
             products_crawled = or_else crawled (products_crawled (progress s)),
             products_skipped = or_else skipped (products_skipped (progress s)),
             images_downloaded = or_else downloaded (images_downloaded (progress s)),
             images_failed = or_else failed (images_failed (progress s)),
             current_page = or_else page (current_page (progress s)),
             last_product_url = (case last_url of None \<Rightarrow> last_product_url (progress s) | Some u \<Rightarrow> Some u)\<rparr>\<rparr>),
           updated_at := clk (ticks m)\<rparr>)) \<and>
   (current_session (checklist m) = None \<longrightarrow>
      update_session_progress clk discovered crawled skipped downloaded failed page last_url m = m) \<and>
   written (end_session clk status m)
     ((checklist m)\<lparr>current_session := map_option (\<lambda>s. s\<lparr>cs_status := status\<rparr>) (current_session (checklist m)),
                     updated_at := clk (ticks m)\<rparr>) \<and>
   (written (snd (create_job clk job_type cfg prio m))
      ((checklist m)\<lparr>jobs := jobs (checklist m) @ [fst (create_job clk job_type cfg prio m)],
         stats := (stats (checklist m))\<lparr>st_jobs := (st_jobs (stats (checklist m)))
            \<lparr>js_total := js_total (st_jobs (stats (checklist m))) + 1,
             js_pending := js_pending (st_jobs (stats (checklist m))) + 1\<rparr>\<rparr>,
         updated_at := clk (ticks m)\<rparr>) \<and>
    fst (create_job clk job_type cfg prio m) =
      \<lparr>cj_id = ''JOB-'' @ format_0d 3 (length (jobs (checklist m)) + 1), cj_type = job_type,
       cj_status = PENDING, priority = prio, execution = JobExecution_default,
       config = (case cfg of None \<Rightarrow> JobConfig_default | Some k \<Rightarrow> k), cj_result = None,
       files_modified = []\<rparr>) \<and>
   (find_job job_id (checklist m) = Some job \<longrightarrow>
      (durable (snd (start_job clk job_id agent m)) \<and>
       find_job job_id (checklist (snd (start_job clk job_id agent m))) = fst (start_job clk job_id agent m) \<and>
       fst (start_job clk job_id agent m) =
         Some (job\<lparr>cj_status := IN_PROGRESS,
                    execution := (execution job)\<lparr>ex_agent := Some agent, ex_started_at := Some (clk (ticks m))\<rparr>\<rparr>) \<and>
       updated_at (checklist (snd (start_job clk job_id agent m))) = clk (Suc (ticks m))) \<and>
      (durable (snd (complete_job clk job_id res m)) \<and>
       find_job job_id (checklist (snd (complete_job clk job_id res m))) = fst (complete_job clk job_id res m) \<and>
       map_option cj_status (fst (complete_job clk job_id res m)) = Some (if success res then COMPLETED else FAILED) \<and>
       map_option cj_result (fst (complete_job clk job_id res m)) = Some (Some res) \<and>
       map_option (\<lambda>j. ex_completed_at (execution j)) (fst (complete_job clk job_id res m)) = Some (Some (clk (ticks m))) \<and>
       js_completed (st_jobs (stats (checklist (snd (complete_job clk job_id res m))))) =
         js_completed (st_jobs (stats (checklist m))) + (if success res then 1 else 0) \<and>
       js_failed (st_jobs (stats (checklist (snd (complete_job clk job_id res m))))) =
         js_failed (st_jobs (stats (checklist m))) + (if success res then 0 else 1))) \<and>
   (find_job job_id (checklist m) = None \<longrightarrow>
      start_job clk job_id agent m = (None, m) \<and> complete_job clk job_id res m = (None, m)) \<and>
   (durable (snd (add_or_update_product clk product_id name url job_id status ic dc fc pr cat m)) \<and>
    find_product product_id (checklist (snd (add_or_update_product clk product_id name url job_id status ic dc fc pr cat m))) =
      Some (fst (add_or_update_product clk product_id name url job_id status ic dc fc pr cat m)) \<and>
    pe_status (fst (add_or_update_product clk product_id name url job_id status ic dc fc pr cat m)) = status \<and>
    images (fst (add_or_update_product clk product_id name url job_id status ic dc fc pr cat m)) =
      \<lparr>im_total = ic, im_downloaded = dc, im_failed = fc, im_status = status\<rparr> \<and>
    updated_at (checklist (snd (add_or_update_product clk product_id name url job_id status ic dc fc pr cat m))) =
      clk (Suc (ticks m))) \<and>
   (written (snd (log_error clk job_id error_type message pid_opt url_opt m))
      ((checklist m)\<lparr>errors := errors (checklist m) @ [fst (log_error clk job_id error_type message pid_opt url_opt m)],
                      updated_at := clk (Suc (ticks m))\<rparr>) \<and>
    fst (log_error clk job_id error_type message pid_opt url_opt m) =
      \<lparr>ee_id = ''ERR-'' @ format_0d 3 (length (errors (checklist m)) + 1), ee_timestamp = clk (ticks m),
       ee_job_id = job_id, ee_product_id = pid_opt, ee_type = error_type, ee_url = url_opt,
       ee_message = message, retry_count = 0, resolved = False\<rparr>) \<and>
   (find (\<lambda>e. ee_id e = error_id) (errors (checklist m)) = Some err \<longrightarrow>
      fst (resolve_error clk error_id m) \<and>
      durable (snd (resolve_error clk error_id m)) \<and>
      find (\<lambda>e. ee_id e = error_id) (errors (checklist (snd (resolve_error clk error_id m)))) =
        Some (err\<lparr>resolved := True\<rparr>) \<and>
      updated_at (checklist (snd (resolve_error clk error_id m))) = clk (ticks m)) \<and>
   (find (\<lambda>e. ee_id e = error_id) (errors (checklist m)) = None \<longrightarrow>
      resolve_error clk error_id m = (False, m)) \<and>
   written (sync_from_metadata clk crawl_result m)
     ((checklist m)\<lparr>
        stats := (stats (checklist m))\<lparr>total_products := cr_total_products crawl_result,
           total_images := cr_total_images crawl_result,
           downloads := (downloads (stats (checklist m)))\<lparr>ds_successful := cr_total_images crawl_result\<rparr>\<rparr>,
        metadata_sync := (metadata_sync (checklist m))\<lparr>last_sync := Some (clk (ticks m)),
           products_in_metadata := cr_total_products crawl_result,
           images_in_metadata := cr_total_images crawl_result, sync_status := ''in_sync''\<rparr>,
        updated_at := clk (Suc (ticks m))\<rparr>)"
  apply (rule conjI, rule written_save)
  apply (rule conjI, rule written_start_session)
  apply (rule conjI, rule impI, erule written_update_session_progress)
  apply (rule conjI, rule impI, erule idle_update_session_progress)
  apply (rule conjI, rule written_end_session)
  apply (rule conjI, rule written_create_job)
  apply (rule conjI, rule impI, rule conjI, erule written_start_job, erule written_complete_job)
  apply (rule conjI, rule impI, erule idle_jobs)
  apply (rule conjI, rule written_add_or_update_product)
  apply (rule conjI, rule written_log_error)
  apply (rule conjI, rule impI, erule written_resolve_error)
  apply (rule conjI, rule impI, erule idle_resolve_error)
  apply (rule written_sync_from_metadata)
  done

lemma example_ledger_session: "current_session (checklist example_ledger) \<noteq> None"
  by (simp add: example_ledger_def log_error_def create_job_def start_session_def save_def now_def
      fresh_manager_def StoreParserChecklist_default_def Let_def)

lemma format_0d_3_1: "format_0d 3 (Suc 0) = ''001''"
  by code_simp

lemma example_ledger_job: "find_job ''JOB-001'' (checklist example_ledger) \<noteq> None"
  by (simp add: example_ledger_def log_error_def create_job_def start_session_def save_def now_def
      fresh_manager_def StoreParserChecklist_default_def Let_def find_job_def format_0d_3_1)

lemma example_ledger_error:
  "find (\<lambda>e. ee_id e = ''ERR-001'') (errors (checklist example_ledger)) \<noteq> None"
  by (simp add: example_ledger_def log_error_def create_job_def start_session_def save_def now_def
      fresh_manager_def StoreParserChecklist_default_def Let_def format_0d_3_1)

theorem durability_witness:
  "ledger_file (update_session_progress int (Some 12) None None None None (Some 2) None example_ledger) =
     Some (checklist (update_session_progress int (Some 12) None None None None (Some 2) None example_ledger)) \<and>
   map_option (\<lambda>s. products_discovered (progress s))
     (current_session (checklist (update_session_progress int (Some 12) None None None None (Some 2) None example_ledger))) =
     Some 12 \<and>
   durable (snd (start_job int ''JOB-001'' ''crawler-agent'' example_ledger)) \<and>
   find_job ''JOB-001'' (checklist (snd (start_job int ''JOB-001'' ''crawler-agent'' example_ledger))) =
     fst (start_job int ''JOB-001'' ''crawler-agent'' example_ledger) \<and>
   map_option cj_status (fst (start_job int ''JOB-001'' ''crawler-agent'' example_ledger)) = Some IN_PROGRESS \<and>
   durable (snd (complete_job int ''JOB-001'' example_result example_ledger)) \<and>
   map_option cj_status (fst (complete_job int ''JOB-001'' example_result example_ledger)) = Some COMPLETED \<and>
   fst (resolve_error int ''ERR-001'' example_ledger) \<and>
   durable (snd (resolve_error int ''ERR-001'' example_ledger)) \<and>
   map_option resolved (find (\<lambda>e. ee_id e = ''ERR-001'')
     (errors (checklist (snd (resolve_error int ''ERR-001'' example_ledger))))) = Some True"
proof -
  obtain s where s: "current_session (checklist example_ledger) = Some s"
    using example_ledger_session by auto
  obtain job where job: "find_job ''JOB-001'' (checklist example_ledger) = Some job"
    using example_ledger_job by auto
  obtain err where err: "find (\<lambda>e. ee_id e = ''ERR-001'') (errors (checklist example_ledger)) = Some err"
    using example_ledger_error by auto
  note d = durability [where clk = int and m = example_ledger and s = s and job = job and err = err
      and job_id = "''JOB-001''" and error_id = "''ERR-001''" and agent = "''crawler-agent''"
      and discovered = "Some 12" and crawled = None and skipped = None and downloaded = None
      and failed = None and page = "Some 2" and last_url = None and res = example_result
      and uuid_hex = "[]" and status = COMPLETED and job_type = FULL_CRAWL and cfg = None
      and prio = "[]" and product_id = "[]" and name = "[]" and url = "[]" and ic = 0 and dc = 0
      and fc = 0 and pr = None and cat = None and error_type = TIMEOUT and message = "[]"
      and pid_opt = None and url_opt = None and crawl_result = empty_metadata]
  show ?thesis
    using d s job err
    by (simp add: written_def or_else_def example_result_def)
qed

section \<open>Stats integrity\<close>













section \<open>Pagination\<close>

lemma collected_new: "collected lst (Suc q) = collected lst q @ new_on_page lst (Suc q)"
  by (simp add: new_on_page_def)

lemma pages_loop_stop:
  assumes "new_on_page lst (Suc q) = []"
  shows "pages_loop lst (Suc q) (collected lst q) req = (collected lst (Suc q), req @ [Suc q])"
  using assms
  by (subst pages_loop.simps) (simp add: Let_def new_on_page_def)

lemma pages_loop_limit:
  "pages_loop lst 50 (collected lst 49) req = (collected lst 50, req @ [50])"
proof -
  have c: "collected lst 50 = collected lst 49 @ page_links (collected lst 49) [] (lst 50)"
    using collected.simps(2)[of lst 49] by simp
  show ?thesis
    by (subst pages_loop.simps) (simp add: Let_def c)
qed

lemma pages_loop_step:
  assumes "new_on_page lst (Suc q) \<noteq> []" "Suc q < 50"
  shows "pages_loop lst (Suc q) (collected lst q) req =
         pages_loop lst (Suc (Suc q)) (collected lst (Suc q)) (req @ [Suc q])"
proof -
  have "lst (Suc q) \<noteq> []" using assms(1) by (auto simp: new_on_page_def)
  then show ?thesis using assms
    by (subst pages_loop.simps) (simp add: Let_def new_on_page_def)
qed

text \<open>
  The loop invariant: entering the iteration for page \<open>q + 1\<close> with the URLs of the pages
  before it, the loop stops at some page \<open>k\<close> of at most 50.
\<close>

lemma pages_loop_invariant:
  assumes "q < 50"
  shows "\<exists>k. q < k \<and> k \<le> 50 \<and>
     pages_loop lst (Suc q) (collected lst q) [1..<Suc q] = (collected lst k, [1..<Suc k]) \<and>
     (\<forall>j. q < j \<and> j < k \<longrightarrow> new_on_page lst j \<noteq> []) \<and>
     (k < 50 \<longrightarrow> new_on_page lst k = [])"
  using assms
proof (induction "49 - q" arbitrary: q)
  case 0
  then have q: "q = 49" by simp
  have u: "[Suc 0..<50] @ [50] = [Suc 0..<51]"
    using upt_Suc_append [of "Suc 0" 50] by simp
  show ?case
    by (rule exI[of _ 50]) (auto simp add: q pages_loop_limit u)
next
  case (Suc d)
  then have q: "Suc q < 50" by simp
  show ?case
  proof (cases "new_on_page lst (Suc q) = []")
    case True
    show ?thesis
      using True q by (intro exI[of _ "Suc q"]) (auto simp add: pages_loop_stop)
  next
    case False
    have "d = 49 - Suc q" using Suc(2) by simp
    from Suc(1)[OF this q] obtain k where k: "Suc q < k" "k \<le> 50"
      "pages_loop lst (Suc (Suc q)) (collected lst (Suc q)) [1..<Suc (Suc q)] = (collected lst k, [1..<Suc k])"
      "\<forall>j. Suc q < j \<and> j < k \<longrightarrow> new_on_page lst j \<noteq> []"
      "k < 50 \<longrightarrow> new_on_page lst k = []"
      by blast
    have step: "pages_loop lst (Suc q) (collected lst q) [1..<Suc q] = (collected lst k, [1..<Suc k])"
      using pages_loop_step[OF False q, of "[1..<Suc q]"] k(3) by simp
    have all: "\<forall>j. q < j \<and> j < k \<longrightarrow> new_on_page lst j \<noteq> []"
    proof (intro allI impI)
      fix j assume j: "q < j \<and> j < k"
      show "new_on_page lst j \<noteq> []"
      proof (cases "j = Suc q")
        case True then show ?thesis using False by simp
      next
        case False then show ?thesis using j k(4) by auto
      qed
    qed
    show ?thesis
      using k step all by (intro exI[of _ k]) auto
  qed
qed

lemma new_on_page_links: "new_on_page lst j \<noteq> [] \<Longrightarrow> lst j \<noteq> []"
  by (auto simp: new_on_page_def)

text \<open>
  Claim C8. \<open>get_product_urls\<close> is a total function of the listing pages: whatever they
  hold, it returns. With the browser started it navigates to the pages \<open>1, ..., k\<close> in
  order for some \<open>k\<close> of at most 50 and returns the URLs those pages contribute; every page
  before the last had links and contributed a URL not collected before, and a last page
  under 50 has no links or contributes no new URL. Without a browser it raises at once.
\<close>

theorem pagination_terminates:
  "(\<exists>k. 1 \<le> k \<and> k \<le> 50 \<and>
        get_product_urls True lst = Inr (collected lst k, [1..<Suc k]) \<and>
        (\<forall>j. 1 \<le> j \<and> j < k \<longrightarrow> lst j \<noteq> [] \<and> new_on_page lst j \<noteq> []) \<and>
        (k < 50 \<longrightarrow> lst k = [] \<or> new_on_page lst k = [])) \<and>
   get_product_urls False lst = Inl RuntimeError"
proof -
  from pages_loop_invariant [of 0 lst] obtain k where k: "0 < k" "k \<le> 50"
      "pages_loop lst (Suc 0) (collected lst 0) [1..<Suc 0] = (collected lst k, [1..<Suc k])"
      "\<forall>j. 0 < j \<and> j < k \<longrightarrow> new_on_page lst j \<noteq> []"
      "k < 50 \<longrightarrow> new_on_page lst k = []"
    by auto
  have "get_product_urls True lst = Inr (collected lst k, [1..<Suc k])"
    using k(3) by (simp add: get_product_urls_def)
  moreover have "\<forall>j. 1 \<le> j \<and> j < k \<longrightarrow> lst j \<noteq> [] \<and> new_on_page lst j \<noteq> []"
    using k(4) new_on_page_links [of lst] by auto
  ultimately have "1 \<le> k \<and> k \<le> 50 \<and>
        get_product_urls True lst = Inr (collected lst k, [1..<Suc k]) \<and>
        (\<forall>j. 1 \<le> j \<and> j < k \<longrightarrow> lst j \<noteq> [] \<and> new_on_page lst j \<noteq> []) \<and>
        (k < 50 \<longrightarrow> lst k = [] \<or> new_on_page lst k = [])"
    using k(1,2,5) by auto
  then show ?thesis
    by (auto simp: get_product_urls_def)
qed

theorem pagination_terminates_witness:
  "\<exists>k. 1 \<le> k \<and> k \<le> 50 \<and>
      get_product_urls True example_listing = Inr (collected example_listing k, [1..<Suc k])"
  using pagination_terminates [of example_listing] by blast

section \<open>Partial-failure containment\<close>












lemma run_tasks_idle: "tasks = [] \<Longrightarrow> run_tasks net clk tasks imgs d = Inr (imgs, d)"
  by simp







section \<open>Missing or unreadable metadata\<close>



text \<open>With a metadata file that decodes, the products it lists are the ones skipped.\<close>

lemma readable_metadata_skips_listed:
  "metadata_text d = Some content \<Longrightarrow> decode content = Some r \<Longrightarrow>
   skips_product decode True d product_id = (product_id \<in> set (map p_id (cr_products r)))"
  by (simp add: load_metadata_def get_downloaded_product_ids_def existing_ids_def skips_product_def)

end
